theory Spec2Isabelle
  imports Main
begin

section \<open>JavaScript strings\<close>

text \<open>
  A JavaScript string is modelled as the list of its code units, of type \<open>string\<close>.
  HOL characters have eight bits, so the model covers the strings whose code units lie
  below 256; the white space of \<open>String.prototype.trim\<close> is the ECMAScript WhiteSpace
  and LineTerminator set restricted to that range (TAB, LF, VT, FF, CR, SP, NBSP).
\<close>

definition is_js_whitespace :: "char \<Rightarrow> bool" where
  "is_js_whitespace c =
     (c \<in> {CHR 0x09, CHR 0x0A, CHR 0x0B, CHR 0x0C, CHR 0x0D, CHR 0x20, CHR 0xA0})"

text \<open>\<open>s.trim()\<close>\<close>

definition trim :: "string \<Rightarrow> string" where
  "trim s = rev (dropWhile is_js_whitespace (rev (dropWhile is_js_whitespace s)))"

text \<open>\<open>s.split(sep)\<close> for a separator of one code unit: the empty string splits
  into one empty part.\<close>

fun js_split :: "char \<Rightarrow> string \<Rightarrow> string list" where
  "js_split sep [] = [[]]"
| "js_split sep (c # cs) =
     (if c = sep then [] # js_split sep cs
      else (case js_split sep cs of
              p # ps \<Rightarrow> (c # p) # ps
            | [] \<Rightarrow> [[c]]))"

text \<open>\<open>xs.join(sep)\<close> on an array of strings.\<close>

fun js_join :: "string \<Rightarrow> string list \<Rightarrow> string" where
  "js_join sep [] = []"
| "js_join sep [x] = x"
| "js_join sep (x # y # ys) = x @ sep @ js_join sep (y # ys)"

text \<open>\<open>s.startsWith(p)\<close> and \<open>s.includes(sub)\<close>.\<close>

fun starts_with :: "string \<Rightarrow> string \<Rightarrow> bool" where
  "starts_with s [] = True"
| "starts_with [] (p # ps) = False"
| "starts_with (c # cs) (p # ps) = (c = p \<and> starts_with cs ps)"

fun js_includes :: "string \<Rightarrow> string \<Rightarrow> bool" where
  "js_includes [] sub = (sub = [])"
| "js_includes (c # cs) sub = (starts_with (c # cs) sub \<or> js_includes cs sub)"

text \<open>Decimal rendering of integers, as \<open>String(n)\<close> renders them.\<close>

fun show_nat :: "nat \<Rightarrow> string" where
  "show_nat n =
     (if n < 10 then [''0123456789'' ! n]
      else show_nat (n div 10) @ [''0123456789'' ! (n mod 10)])"

definition show_int :: "int \<Rightarrow> string" where
  "show_int i = (if i < 0 then ''-'' @ show_nat (nat (- i)) else show_nat (nat i))"

section \<open>JavaScript values\<close>

text \<open>
  The values that \<open>JSON.parse\<close> produces and that the object literals of the server
  build, with \<open>undefined\<close> for an absent property. An object is the list of its own
  properties in enumeration order, with distinct keys. Numbers are the integers that
  JavaScript represents exactly; fractional numbers are outside the model.
\<close>

datatype jsval =
    JUndefined
  | JNull
  | JBool bool
  | JNum int
  | JStr string
  | JArr "jsval list"
  | JObj "(string \<times> jsval) list"

text \<open>Truthiness, as \<open>if (v)\<close>, \<open>!v\<close>, \<open>a && b\<close> and \<open>a || b\<close> read it.\<close>

fun truthy :: "jsval \<Rightarrow> bool" where
  "truthy JUndefined = False"
| "truthy JNull = False"
| "truthy (JBool b) = b"
| "truthy (JNum n) = (n \<noteq> 0)"
| "truthy (JStr s) = (s \<noteq> [])"
| "truthy (JArr xs) = True"
| "truthy (JObj ps) = True"

text \<open>An optional string parameter (\<open>z.string().optional()\<close>): \<open>None\<close> is
  \<open>undefined\<close>; the empty string is falsy as well.\<close>

fun truthy_opt :: "string option \<Rightarrow> bool" where
  "truthy_opt None = False"
| "truthy_opt (Some s) = (s \<noteq> [])"

text \<open>Reading an own property of an object literal, and the assignment \<open>o.k = v\<close>:
  an existing property keeps its place, a new one is added last.\<close>

fun get_own :: "(string \<times> jsval) list \<Rightarrow> string \<Rightarrow> jsval" where
  "get_own [] k = JUndefined"
| "get_own ((k', v) # ps) k = (if k' = k then v else get_own ps k)"

fun js_prop :: "jsval \<Rightarrow> string \<Rightarrow> jsval" where
  "js_prop (JObj ps) k = get_own ps k"
| "js_prop v k = JUndefined"

fun put_own :: "(string \<times> jsval) list \<Rightarrow> string \<Rightarrow> jsval \<Rightarrow> (string \<times> jsval) list" where
  "put_own [] k v = [(k, v)]"
| "put_own ((k', v') # ps) k v = (if k' = k then (k, v) # ps else (k', v') # put_own ps k v)"

fun set_prop :: "jsval \<Rightarrow> string \<Rightarrow> jsval \<Rightarrow> jsval" where
  "set_prop (JObj ps) k v = JObj (put_own ps k v)"
| "set_prop w k v = w"

section \<open>Field descriptors of the Commit phase\<close>

text \<open>An element of the \<open>fields\<close> parameter of \<open>create_or_update_release\<close> and
  \<open>update_work_item\<close>: \<open>{name, value, type?}\<close>, as the zod schema admits it.\<close>

record field_input =
  f_name :: string
  f_value :: string
  f_type :: "string option"

text \<open>\<open>field.type || "SHORT_STRING"\<close>\<close>

definition type_or_default :: "field_input \<Rightarrow> string" where
  "type_or_default field =
     (if truthy_opt (f_type field) then the (f_type field) else ''SHORT_STRING'')"

text \<open>\<open>create_or_update_release\<close>, Step 3: the callback of \<open>fields.map\<close> that builds
  one entry of \<open>commitFields\<close>.\<close>

definition release_commitField :: "field_input \<Rightarrow> jsval" where
  "release_commitField field =
     (let baseField = JObj [
            (''name'', JStr (f_name field)),
            (''valueStatus'', JStr ''HAS_VALUE''),
            (''validationStatus'', JStr ''_KNOWN_VALID''),
            (''requiredness'',
               JStr (if f_name field = ''Name'' then ''MANDATORY'' else ''OPTIONAL'')),
            (''requirednessForUser'',
               JStr (if f_name field = ''Name'' then ''MANDATORY'' else ''OPTIONAL'')),
            (''type'', JStr (type_or_default field)),
            (''messageText'', JStr ''''),
            (''maxLength'',
               JNum (if f_type field = Some ''MULTILINE_STRING''
                        \<or> f_type field = Some ''REFERENCE_LIST'' then 0 else 254))]
      in if f_type field = Some ''REFERENCE_LIST''
         then (let valueAsList = map trim (js_split CHR '','' (f_value field));
                   baseField1 = set_prop baseField ''valueAsList'' (JArr (map JStr valueAsList))
               in set_prop baseField1 ''value'' (JStr (js_join [CHR 0x0A] valueAsList)))
         else (let baseField1 = set_prop baseField ''value'' (JStr (f_value field))
               in set_prop baseField1 ''valueAsList'' (JArr [JStr (f_value field)])))"

text \<open>\<open>create_or_update_sprint\<close>, Step 3: the three conditional pushes onto
  \<open>commitFields\<close>.\<close>

definition sprint_commitFields ::
  "string option \<Rightarrow> string option \<Rightarrow> string option \<Rightarrow> jsval list" where
  "sprint_commitFields name startDate endDate =
     (if truthy_opt name then
        [JObj [(''name'', JStr ''Name''),
               (''value'', JStr (the name)),
               (''valueStatus'', JStr ''HAS_VALUE''),
               (''validationStatus'', JStr ''_KNOWN_VALID''),
               (''requiredness'', JStr ''MANDATORY''),
               (''requirednessForUser'', JStr ''MANDATORY''),
               (''type'', JStr ''SHORT_STRING''),
               (''valueAsList'', JArr [JStr (the name)]),
               (''messageText'', JStr ''''),
               (''maxLength'', JNum 254)]]
      else [])
     @ (if truthy_opt startDate then
        [JObj [(''name'', JStr ''StartDate''),
               (''value'', JStr (the startDate @ '' 00:00:00'')),
               (''valueStatus'', JStr ''HAS_VALUE''),
               (''validationStatus'', JStr ''_KNOWN_VALID''),
               (''requiredness'', JStr ''MANDATORY''),
               (''requirednessForUser'', JStr ''MANDATORY''),
               (''type'', JStr ''DATE_TIME''),
               (''valueAsList'', JArr [JStr (the startDate @ '' 00:00:00'')]),
               (''messageText'', JStr ''''),
               (''maxLength'', JNum 0)]]
      else [])
     @ (if truthy_opt endDate then
        [JObj [(''name'', JStr ''EndDate''),
               (''value'', JStr (the endDate @ '' 00:00:00'')),
               (''valueStatus'', JStr ''HAS_VALUE''),
               (''validationStatus'', JStr ''_KNOWN_VALID''),
               (''requiredness'', JStr ''MANDATORY''),
               (''requirednessForUser'', JStr ''MANDATORY''),
               (''type'', JStr ''DATE_TIME''),
               (''valueAsList'', JArr [JStr (the endDate @ '' 00:00:00'')]),
               (''messageText'', JStr ''''),
               (''maxLength'', JNum 0)]]
      else [])"

text \<open>\<open>update_work_item\<close>, Step 3: the callback of \<open>fields.map\<close> in
  \<open>commitBody\<close>.\<close>

definition workitem_commitField :: "field_input \<Rightarrow> jsval" where
  "workitem_commitField field =
     JObj [(''name'', JStr (f_name field)),
           (''value'', JStr (f_value field)),
           (''valueStatus'',
              JStr (if f_value field \<noteq> [] then ''HAS_VALUE'' else ''HAS_NO_VALUE'')),
           (''validationStatus'', JStr ''_KNOWN_VALID''),
           (''requiredness'', JStr ''OPTIONAL''),
           (''requirednessForUser'', JStr ''OPTIONAL''),
           (''type'', JStr (type_or_default field)),
           (''valueAsList'',
              JArr (if f_value field \<noteq> [] then [JStr (f_value field)] else [])),
           (''messageText'', JStr ''''),
           (''maxLength'', JNum (if f_type field = Some ''SHORT_STRING'' then 254 else 0))]"

section \<open>The runtime: HTTP exchanges, the session slot, exceptions\<close>

text \<open>
  The server talks to the Plan server through \<open>fetch\<close> only. A request is the URL and
  the options object of one \<open>fetch\<close> call; a response carries what the server reads
  from it: the status (\<open>response.ok\<close> is a status from 200 to 299), the status text,
  the \<open>set-cookie\<close> header, and the results of \<open>response.text()\<close> and
  \<open>response.json()\<close>, the latter being the parsed body or the message of the
  SyntaxError it throws. The network is a parameter: it answers a request, given the
  events so far, with a response or with the message of the error \<open>fetch\<close> throws.
  Every call of \<open>fetch\<close> is recorded as an event, whether it is answered or fails;
  \<open>response.text()\<close> is taken not to fail. Console output is not modelled.
\<close>

record request =
  url :: string
  http_method :: string
  headers :: "(string \<times> string) list"
  body :: "string option"
  credentials :: "string option"

record response =
  status :: nat
  statusText :: string
  set_cookie :: "string option"
  body_text :: string
  body_json :: "string + jsval"

definition ok :: "response \<Rightarrow> bool" where
  "ok r = (200 \<le> status r \<and> status r \<le> 299)"

datatype event = Fetch request | Delay nat

text \<open>A thrown value: every value the server or the engine throws is an \<open>Error\<close>
  object, of which the handlers read \<open>message\<close> only.\<close>

datatype js_error = Error string

fun message :: "js_error \<Rightarrow> string" where
  "message (Error m) = m"

text \<open>The configuration \<open>getConfig\<close> returns, and the network.\<close>

record env =
  personal_access_token_string :: string
  serverURL :: string
  teamspaceID :: string
  network :: "event list \<Rightarrow> request \<Rightarrow> string + response"

text \<open>The state of the process: the module variable \<open>globalCookies\<close> (initially the
  empty string; \<open>None\<close> is \<open>null\<close>) and the events so far.\<close>

record world =
  globalCookies :: "string option"
  trace :: "event list"

definition initial_world :: world where
  "initial_world = \<lparr>globalCookies = Some [], trace = []\<rparr>"

text \<open>An asynchronous function body: it runs on the world and either throws or returns.\<close>

type_synonym 'a js = "world \<Rightarrow> (js_error + 'a) \<times> world"

definition js_return :: "'a \<Rightarrow> 'a js" where
  "js_return x = (\<lambda>w. (Inr x, w))"

definition js_throw :: "js_error \<Rightarrow> 'a js" where
  "js_throw e = (\<lambda>w. (Inl e, w))"

definition js_bind :: "'a js \<Rightarrow> ('a \<Rightarrow> 'b js) \<Rightarrow> 'b js" where
  "js_bind m f = (\<lambda>w. case m w of (Inl e, w') \<Rightarrow> (Inl e, w') | (Inr x, w') \<Rightarrow> f x w')"

text \<open>\<open>try { m } catch (e) { h e }\<close>\<close>

definition js_try :: "'a js \<Rightarrow> (js_error \<Rightarrow> 'a js) \<Rightarrow> 'a js" where
  "js_try m h = (\<lambda>w. case m w of (Inl e, w') \<Rightarrow> h e w' | (Inr x, w') \<Rightarrow> (Inr x, w'))"

text \<open>A computation without effect that may throw.\<close>

definition js_lift :: "js_error + 'a \<Rightarrow> 'a js" where
  "js_lift r = (case r of Inl e \<Rightarrow> js_throw e | Inr x \<Rightarrow> js_return x)"

definition read_globalCookies :: "(string option) js" where
  "read_globalCookies = (\<lambda>w. (Inr (globalCookies w), w))"

definition write_globalCookies :: "string option \<Rightarrow> unit js" where
  "write_globalCookies c = (\<lambda>w. (Inr (), w\<lparr>globalCookies := c\<rparr>))"

text \<open>\<open>await fetch(url, options)\<close>\<close>

definition fetch :: "env \<Rightarrow> request \<Rightarrow> response js" where
  "fetch env req =
     (\<lambda>w. case network env (trace w) req of
            Inl msg \<Rightarrow> (Inl (Error msg), w\<lparr>trace := trace w @ [Fetch req]\<rparr>)
          | Inr resp \<Rightarrow> (Inr resp, w\<lparr>trace := trace w @ [Fetch req]\<rparr>))"

text \<open>\<open>await new Promise(resolve => setTimeout(resolve, ms))\<close>\<close>

definition delay :: "nat \<Rightarrow> unit js" where
  "delay ms = (\<lambda>w. (Inr (), w\<lparr>trace := trace w @ [Delay ms]\<rparr>))"

text \<open>\<open>await response.json()\<close>\<close>

definition response_json :: "response \<Rightarrow> jsval js" where
  "response_json r =
     (case body_json r of Inl msg \<Rightarrow> js_throw (Error msg) | Inr v \<Rightarrow> js_return v)"

section \<open>Built-in conversions\<close>

text \<open>\<open>JSON.stringify\<close>: the quoting of a string, and the rendering of a value. A
  property whose value is \<open>undefined\<close> is left out of an object, an \<open>undefined\<close>
  element of an array is rendered as \<open>null\<close>, and \<open>JSON.stringify(undefined)\<close> is
  \<open>undefined\<close> (here \<open>None\<close>).\<close>

definition quote_char :: "char \<Rightarrow> string" where
  "quote_char c =
     (if c = CHR 0x22 then [CHR 0x5C, CHR 0x22]
      else if c = CHR 0x5C then [CHR 0x5C, CHR 0x5C]
      else if c = CHR 0x08 then [CHR 0x5C, CHR ''b'']
      else if c = CHR 0x09 then [CHR 0x5C, CHR ''t'']
      else if c = CHR 0x0A then [CHR 0x5C, CHR ''n'']
      else if c = CHR 0x0C then [CHR 0x5C, CHR ''f'']
      else if c = CHR 0x0D then [CHR 0x5C, CHR ''r'']
      else if (of_char c :: nat) < 32 then
        [CHR 0x5C, CHR ''u'', CHR ''0'', CHR ''0'',
         ''0123456789abcdef'' ! (of_char c div 16), ''0123456789abcdef'' ! (of_char c mod 16)]
      else [c])"

definition json_quote :: "string \<Rightarrow> string" where
  "json_quote s = [CHR 0x22] @ concat (map quote_char s) @ [CHR 0x22]"

fun stringify :: "jsval \<Rightarrow> string option"
  and stringify_elems :: "jsval list \<Rightarrow> string list"
  and stringify_props :: "(string \<times> jsval) list \<Rightarrow> string list" where
  "stringify JUndefined = None"
| "stringify JNull = Some ''null''"
| "stringify (JBool b) = Some (if b then ''true'' else ''false'')"
| "stringify (JNum n) = Some (show_int n)"
| "stringify (JStr s) = Some (json_quote s)"
| "stringify (JArr xs) = Some (''['' @ js_join '','' (stringify_elems xs) @ '']'')"
| "stringify (JObj ps) = Some (''{'' @ js_join '','' (stringify_props ps) @ ''}'')"
| "stringify_elems [] = []"
| "stringify_elems (x # xs) =
     (case stringify x of None \<Rightarrow> ''null'' | Some s \<Rightarrow> s) # stringify_elems xs"
| "stringify_props [] = []"
| "stringify_props ((k, v) # ps) =
     (case stringify v of
        None \<Rightarrow> stringify_props ps
      | Some s \<Rightarrow> (json_quote k @ '':'' @ s) # stringify_props ps)"

text \<open>\<open>JSON.stringify(v)\<close> where a string is wanted: as the body of a request, or
  inside a template literal, which renders \<open>undefined\<close> by its name.\<close>

definition JSON_stringify :: "jsval \<Rightarrow> string" where
  "JSON_stringify v = (case stringify v of None \<Rightarrow> ''undefined'' | Some s \<Rightarrow> s)"

text \<open>\<open>JSON.stringify(v, null, 2)\<close>; the first argument is the current indentation.\<close>

fun stringify2 :: "string \<Rightarrow> jsval \<Rightarrow> string option"
  and stringify2_elems :: "string \<Rightarrow> jsval list \<Rightarrow> string list"
  and stringify2_props :: "string \<Rightarrow> (string \<times> jsval) list \<Rightarrow> string list" where
  "stringify2 ind JUndefined = None"
| "stringify2 ind JNull = Some ''null''"
| "stringify2 ind (JBool b) = Some (if b then ''true'' else ''false'')"
| "stringify2 ind (JNum n) = Some (show_int n)"
| "stringify2 ind (JStr s) = Some (json_quote s)"
| "stringify2 ind (JArr xs) =
     Some (if xs = [] then ''[]''
           else ''['' @ [CHR 0x0A] @ ind @ ''  ''
                @ js_join ('','' @ [CHR 0x0A] @ ind @ ''  '') (stringify2_elems (ind @ ''  '') xs)
                @ [CHR 0x0A] @ ind @ '']'')"
| "stringify2 ind (JObj ps) =
     Some (if stringify2_props (ind @ ''  '') ps = [] then ''{}''
           else ''{'' @ [CHR 0x0A] @ ind @ ''  ''
                @ js_join ('','' @ [CHR 0x0A] @ ind @ ''  '') (stringify2_props (ind @ ''  '') ps)
                @ [CHR 0x0A] @ ind @ ''}'')"
| "stringify2_elems ind [] = []"
| "stringify2_elems ind (x # xs) =
     (case stringify2 ind x of None \<Rightarrow> ''null'' | Some s \<Rightarrow> s) # stringify2_elems ind xs"
| "stringify2_props ind [] = []"
| "stringify2_props ind ((k, v) # ps) =
     (case stringify2 ind v of
        None \<Rightarrow> stringify2_props ind ps
      | Some s \<Rightarrow> (json_quote k @ '': '' @ s) # stringify2_props ind ps)"

text \<open>The messages of the TypeErrors that the engine (V8) throws.\<close>

definition cannot_read :: "jsval \<Rightarrow> string \<Rightarrow> js_error" where
  "cannot_read v k =
     Error (''Cannot read properties of '' @ (if v = JNull then ''null'' else ''undefined'')
            @ '' (reading '' @ [CHR 0x27] @ k @ [CHR 0x27] @ '')'')"

definition not_a_function :: "string \<Rightarrow> js_error" where
  "not_a_function expr = Error (expr @ '' is not a function'')"

definition cannot_convert :: js_error where
  "cannot_convert = Error ''Cannot convert object to primitive value''"

text \<open>
  The conversion of a value to a string, as a template literal \<open>${v}\<close> and a computed
  property key perform it. An array is its elements joined by commas, \<open>null\<close> and
  \<open>undefined\<close> elements being empty. A parsed object is \<open>[object Object]\<close>, unless it
  has an own property \<open>toString\<close>: that is no function, \<open>valueOf\<close> then yields no
  primitive either way, and the conversion throws.
\<close>

fun to_String :: "jsval \<Rightarrow> js_error + string"
  and to_String_elems :: "jsval list \<Rightarrow> js_error + string list" where
  "to_String JUndefined = Inr ''undefined''"
| "to_String JNull = Inr ''null''"
| "to_String (JBool b) = Inr (if b then ''true'' else ''false'')"
| "to_String (JNum n) = Inr (show_int n)"
| "to_String (JStr s) = Inr s"
| "to_String (JArr xs) =
     (case to_String_elems xs of Inl e \<Rightarrow> Inl e | Inr ss \<Rightarrow> Inr (js_join '','' ss))"
| "to_String (JObj ps) =
     (if ''toString'' \<in> set (map fst ps) then Inl cannot_convert else Inr ''[object Object]'')"
| "to_String_elems [] = Inr []"
| "to_String_elems (x # xs) =
     (case (if x = JUndefined \<or> x = JNull then Inr [] else to_String x) of
        Inl e \<Rightarrow> Inl e
      | Inr s \<Rightarrow> (case to_String_elems xs of Inl e \<Rightarrow> Inl e | Inr ss \<Rightarrow> Inr (s # ss)))"

text \<open>
  The property read \<open>v.k\<close>, for the property names the server reads from parsed data
  (\<open>result_set_id\<close>, \<open>rows\<close>, \<open>displayName\<close>, \<open>length\<close>, \<open>dbId\<close>, \<open>viewURL\<close>,
  \<open>name\<close>, \<open>actions\<close>, \<open>actionType\<close>, \<open>actionDestStateName\<close>,
  \<open>actionSourceStateNames\<close>): none of them is inherited from \<open>Object.prototype\<close>, and
  of them arrays and strings have \<open>length\<close> only. Reading from \<open>null\<close> or
  \<open>undefined\<close> throws.
\<close>

fun js_get :: "jsval \<Rightarrow> string \<Rightarrow> js_error + jsval" where
  "js_get JUndefined k = Inl (cannot_read JUndefined k)"
| "js_get JNull k = Inl (cannot_read JNull k)"
| "js_get (JObj ps) k = Inr (get_own ps k)"
| "js_get (JArr xs) k = Inr (if k = ''length'' then JNum (int (length xs)) else JUndefined)"
| "js_get (JStr s) k = Inr (if k = ''length'' then JNum (int (length s)) else JUndefined)"
| "js_get (JBool b) k = Inr JUndefined"
| "js_get (JNum n) k = Inr JUndefined"

text \<open>\<open>xs.map(f)\<close> for a callback that may throw: the first exception ends the map.\<close>

fun map_throwing :: "('a \<Rightarrow> js_error + 'b) \<Rightarrow> 'a list \<Rightarrow> js_error + 'b list" where
  "map_throwing f [] = Inr []"
| "map_throwing f (x # xs) =
     (case f x of
        Inl e \<Rightarrow> Inl e
      | Inr y \<Rightarrow> (case map_throwing f xs of Inl e \<Rightarrow> Inl e | Inr ys \<Rightarrow> Inr (y # ys)))"

section \<open>Session acquisition\<close>

definition bootstrap_request :: "env \<Rightarrow> request" where
  "bootstrap_request env =
     \<lparr>url = serverURL env @ ''/ccmweb/rest/analytics/serverurl'',
      http_method = ''GET'',
      headers = [],
      body = None,
      credentials = Some ''include''\<rparr>"

text \<open>\<open>getCookiesFromServer\<close>: the cookie string, or \<open>null\<close> on every failure.\<close>

definition getCookiesFromServer :: "env \<Rightarrow> (string option) js" where
  "getCookiesFromServer env =
     js_try
       (js_bind (fetch env (bootstrap_request env)) (\<lambda>response.
          if \<not> ok response then js_return None
          else (case set_cookie response of
                  None \<Rightarrow> js_return None
                | Some cookies \<Rightarrow>
                    if cookies = [] then js_return None
                    else js_bind (write_globalCookies (Some cookies)) (\<lambda>_.
                         js_return (Some cookies)))))
       (\<lambda>error. js_return None)"

text \<open>
  The block \<open>if (!globalCookies) { globalCookies = await getCookiesFromServer(serverURL);
  if (!globalCookies) { ... } }\<close> that opens every tool and \<open>_updateEntity\<close>. It
  returns whether a cookie is at hand; what the caller does without one is the caller's.
\<close>

definition ensureSession :: "env \<Rightarrow> bool js" where
  "ensureSession env =
     js_bind read_globalCookies (\<lambda>g.
       if \<not> truthy_opt g then
         js_bind (getCookiesFromServer env) (\<lambda>c.
         js_bind (write_globalCookies c) (\<lambda>_.
         js_return (truthy_opt c)))
       else js_return True)"

section \<open>Requests against the Plan API\<close>

text \<open>The value of the \<open>Cookie\<close> header: \<open>globalCookies\<close> as a string.\<close>

fun cookie_header :: "string option \<Rightarrow> string" where
  "cookie_header None = ''null''"
| "cookie_header (Some c) = c"

text \<open>The \<open>headers\<close> literal of the API calls: \<open>Content-Type\<close>, in some tools
  \<open>Accept\<close>, \<open>Authorization\<close> and \<open>Cookie\<close>, in this order.\<close>

definition api_headers :: "env \<Rightarrow> string option \<Rightarrow> string option \<Rightarrow> (string \<times> string) list" where
  "api_headers env accept g =
     [(''Content-Type'', ''application/json'')]
     @ (case accept of None \<Rightarrow> [] | Some a \<Rightarrow> [(''Accept'', a)])
     @ [(''Authorization'', ''Basic '' @ personal_access_token_string env),
        (''Cookie'', cookie_header g)]"

text \<open>The request of an API call, given the value of \<open>globalCookies\<close> at the call.\<close>

definition api_request ::
  "env \<Rightarrow> string option \<Rightarrow> string \<Rightarrow> string \<Rightarrow> string option \<Rightarrow> string option \<Rightarrow> request" where
  "api_request env g meth u accept bdy =
     \<lparr>url = u, http_method = meth, headers = api_headers env accept g,
      body = bdy, credentials = None\<rparr>"

definition api_fetch ::
  "env \<Rightarrow> string \<Rightarrow> string \<Rightarrow> string option \<Rightarrow> string option \<Rightarrow> response js" where
  "api_fetch env meth u accept bdy =
     js_bind read_globalCookies (\<lambda>g. fetch env (api_request env g meth u accept bdy))"

text \<open>\<open>${serverURL}/ccmweb/rest/repos/${teamspaceID}/databases\<close> and
  \<open>.../databases/${application}\<close>\<close>

definition databases_url :: "env \<Rightarrow> string" where
  "databases_url env = serverURL env @ ''/ccmweb/rest/repos/'' @ teamspaceID env @ ''/databases''"

definition db_url :: "env \<Rightarrow> string \<Rightarrow> string" where
  "db_url env application = databases_url env @ ''/'' @ application"

text \<open>The two results a tool returns: \<open>{ content: [{ type: 'text', text }] }\<close> and
  \<open>{ error: "Failed to retrieve cookies." }\<close>. A callback that ends without a
  \<open>return\<close> yields \<open>undefined\<close>.\<close>

definition text_result :: "string \<Rightarrow> jsval" where
  "text_result t = JObj [(''content'', JArr [JObj [(''type'', JStr ''text''), (''text'', JStr t)]])]"

definition cookie_error :: jsval where
  "cookie_error = JObj [(''error'', JStr ''Failed to retrieve cookies.'')]"

text \<open>The opening of every tool: acquire the session, and return
  \<open>{ error: "Failed to retrieve cookies." }\<close> without one; \<open>rest\<close> is the
  remainder of the \<open>try\<close> block.\<close>

definition with_session :: "env \<Rightarrow> jsval js \<Rightarrow> jsval js" where
  "with_session env rest =
     js_bind (ensureSession env) (\<lambda>have_cookies.
       if \<not> have_cookies then js_return cookie_error else rest)"

section \<open>The query tools\<close>

definition shown :: "string \<Rightarrow> jsval" where
  "shown n = JObj [(''fieldPathName'', JStr n), (''isShown'', JBool True)]"

definition shown0 :: "string \<Rightarrow> jsval" where
  "shown0 n = JObj [(''fieldPathName'', JStr n), (''isShown'', JBool True), (''sortOrder'', JNum 0)]"

definition shown_desc :: "string \<Rightarrow> jsval" where
  "shown_desc n =
     JObj [(''fieldPathName'', JStr n), (''isShown'', JBool True), (''sortType'', JStr ''SORT_DESC'')]"

definition empty_filterNode :: jsval where
  "empty_filterNode =
     JObj [(''boolOp'', JStr ''BOOL_OP_AND''), (''fieldFilters'', JArr []),
           (''childFilterNodes'', JArr [])]"

definition options_10000 :: jsval where
  "options_10000 =
     JObj [(''convertToLocalTime'', JBool False), (''maxResultSetRows'', JNum 10000),
           (''pageSize'', JNum 10000)]"

definition queryPayload :: "string \<Rightarrow> jsval list \<Rightarrow> jsval \<Rightarrow> jsval" where
  "queryPayload entity fieldDefs options =
     JObj [(''queryDef'',
             JObj [(''primaryEntityDefName'', JStr entity),
                   (''queryFieldDefs'', JArr fieldDefs),
                   (''filterNode'', empty_filterNode)]),
           (''resultSetOptions'', options)]"

text \<open>
  The two calls of every query tool: POST the query, read \<open>result_set_id\<close>, GET the
  result set. \<open>verbose\<close> tells whether the error for a missing id quotes the response,
  \<open>suffix\<close> is \<open>?pageNumber=1\<close> or empty. The result is the parsed page.
\<close>

definition run_query :: "env \<Rightarrow> string \<Rightarrow> jsval \<Rightarrow> bool \<Rightarrow> string \<Rightarrow> jsval js" where
  "run_query env application payload verbose suffix =
     js_bind (api_fetch env ''POST'' (db_url env application @ ''/query'') None
                (Some (JSON_stringify payload))) (\<lambda>queryResponse.
     js_bind (response_json queryResponse) (\<lambda>queryData.
     js_bind (js_lift (js_get queryData ''result_set_id'')) (\<lambda>resultSetId.
     if \<not> truthy resultSetId then
       js_throw (Error (if verbose
                        then ''Failed to retrieve result set ID. Response: '' @ JSON_stringify queryData
                        else ''Failed to retrieve result set ID''))
     else
     js_bind (js_lift (to_String resultSetId)) (\<lambda>rsid.
     js_bind (api_fetch env ''GET'' (db_url env application @ ''/query/'' @ rsid @ suffix) None None)
       (\<lambda>pageResponse.
     response_json pageResponse)))))"

text \<open>\<open>data && data.rows\<close>\<close>

definition and_rows :: "jsval \<Rightarrow> jsval js" where
  "and_rows data = (if truthy data then js_lift (js_get data ''rows'') else js_return data)"

text \<open>\<open>data.rows.map(row => row.displayName)\<close>; \<open>expr\<close> is the source text that the
  TypeError for a \<open>rows\<close> that is no array quotes.\<close>

definition displayNames :: "string \<Rightarrow> jsval \<Rightarrow> js_error + jsval list" where
  "displayNames expr rows =
     (case rows of
        JArr xs \<Rightarrow> map_throwing (\<lambda>row. js_get row ''displayName'') xs
      | _ \<Rightarrow> Inl (not_a_function expr))"

definition get_available_projects :: "env \<Rightarrow> string \<Rightarrow> jsval js" where
  "get_available_projects env application =
     js_try
       (with_session env (
        js_bind (run_query env application
                   (queryPayload ''Project''
                      [shown_desc ''dbid'', shown ''Name'', shown ''DescriptionPT''] (JObj []))
                   False ''?pageNumber=1'') (\<lambda>projectsData.
        js_bind (and_rows projectsData) (\<lambda>rows.
        if truthy rows then
          js_bind (js_lift (displayNames ''projectsData.rows.map'' rows)) (\<lambda>projectNames.
          js_return (text_result (''Projects retrieved: '' @ JSON_stringify (JArr projectNames))))
        else js_throw (Error ''Failed to retrieve projects'')))))
       (\<lambda>e. js_return (text_result (''Error retrieving projects: '' @ message e)))"

text \<open>\<open>get_available_components\<close>: the \<open>try\<close> block after the session is
  acquired, and the tool.\<close>

definition components_steps :: "env \<Rightarrow> string \<Rightarrow> jsval js" where
  "components_steps env application =
     js_bind (run_query env application
                (queryPayload ''Component''
                   [shown0 ''Name'', shown0 ''dbid'', shown0 ''record_type''] options_10000)
                False []) (\<lambda>componentsData.
     js_bind (and_rows componentsData) (\<lambda>rows.
     if truthy rows then
       js_bind (js_lift (displayNames ''componentsData.rows.map'' rows)) (\<lambda>componentNames.
       js_return (text_result (''Components retrieved: '' @ JSON_stringify (JArr componentNames))))
     else
       js_bind (js_lift (js_get componentsData ''length'')) (\<lambda>len.
       if len = JNum 0 then
         js_return (text_result (''Components retrieved: '' @ JSON_stringify (JStr ''[]'')))
       else js_return JUndefined)))"

definition get_available_components :: "env \<Rightarrow> string \<Rightarrow> string \<Rightarrow> jsval js" where
  "get_available_components env application projectId =
     js_try
       (with_session env (components_steps env application))
       (\<lambda>e. js_return (text_result (''Components retrieved: '' @ JSON_stringify (JStr ''[]''))))"

definition get_sprints :: "env \<Rightarrow> string \<Rightarrow> jsval js" where
  "get_sprints env application =
     js_try
       (with_session env (
        js_bind (run_query env application
                   (queryPayload ''Sprint''
                      [shown0 ''Name'', shown0 ''StartDate'', shown0 ''EndDate'', shown0 ''dbid'',
                       shown0 ''record_type''] options_10000)
                   True []) (\<lambda>sprintsData.
        js_bind (and_rows sprintsData) (\<lambda>rows.
        if truthy rows then
          js_return (text_result (''Sprints retrieved: '' @ JSON_stringify sprintsData))
        else js_throw (Error ''Failed to retrieve sprints'')))))
       (\<lambda>e. js_return (text_result (''Error retrieving sprints: '' @ message e)))"

definition get_releases :: "env \<Rightarrow> string \<Rightarrow> jsval js" where
  "get_releases env application =
     js_try
       (with_session env (
        js_bind (run_query env application
                   (queryPayload ''Release''
                      [shown0 ''Name'', shown0 ''ReleaseType'', shown0 ''dbid'',
                       shown0 ''record_type'', shown0 ''Sprints''] options_10000)
                   True []) (\<lambda>releasesData.
        js_bind (and_rows releasesData) (\<lambda>rows.
        if truthy rows then
          js_return (text_result (''Releases retrieved: '' @ JSON_stringify releasesData))
        else js_throw (Error ''Failed to retrieve releases'')))))
       (\<lambda>e. js_return (text_result (''Error retrieving releases: '' @ message e)))"

section \<open>Creating and updating sprints and releases\<close>

text \<open>The error of a step whose response is not OK:
  \<open>`${what}: ${response.status} ${errorText}`\<close>\<close>

definition step_failed :: "string \<Rightarrow> response \<Rightarrow> js_error" where
  "step_failed what r = Error (what @ '': '' @ show_nat (status r) @ '' '' @ body_text r)"

text \<open>\<open>POST .../records/${entity}?operation=Edit&useDbid=true\<close> with
  \<open>{ fields: [] }\<close>: the create step of both tools; it yields \<open>createData.dbId\<close>.\<close>

definition create_empty :: "env \<Rightarrow> string \<Rightarrow> string \<Rightarrow> jsval js" where
  "create_empty env application entity =
     js_bind (api_fetch env ''POST''
                (db_url env application @ ''/records/'' @ entity @ ''?operation=Edit&useDbid=true'')
                None (Some (JSON_stringify (JObj [(''fields'', JArr [])])))) (\<lambda>createResponse.
     if \<not> ok createResponse then js_throw (step_failed ''Create operation failed'' createResponse)
     else
     js_bind (response_json createResponse) (\<lambda>createData.
     js_lift (js_get createData ''dbId'')))"

text \<open>\<open>PATCH .../records/${entity}/${targetDbid}?operation=${operation}&useDbid=true\<close>\<close>

definition record_patch ::
  "env \<Rightarrow> string \<Rightarrow> string \<Rightarrow> jsval \<Rightarrow> string \<Rightarrow> jsval \<Rightarrow> response js" where
  "record_patch env application entity targetDbid operation payload =
     js_bind (js_lift (to_String targetDbid)) (\<lambda>dbid.
     api_fetch env ''PATCH''
       (db_url env application @ ''/records/'' @ entity @ ''/'' @ dbid
          @ ''?operation='' @ operation @ ''&useDbid=true'')
       None (Some (JSON_stringify payload)))"

text \<open>The Commit step and the success text of both tools.\<close>

definition commit_and_report ::
  "env \<Rightarrow> string \<Rightarrow> string \<Rightarrow> jsval \<Rightarrow> jsval list \<Rightarrow> bool \<Rightarrow> jsval js" where
  "commit_and_report env application entity targetDbid commitFields isCreating =
     js_bind (record_patch env application entity targetDbid ''Commit''
                (JObj [(''dbId'', targetDbid), (''fields'', JArr commitFields)])) (\<lambda>commitResponse.
     if \<not> ok commitResponse then js_throw (step_failed ''Commit operation failed'' commitResponse)
     else
     js_bind (response_json commitResponse) (\<lambda>commitData.
     js_return (text_result (entity @ '' '' @ (if isCreating then ''created'' else ''updated'')
                             @ '' successfully: '' @ JSON_stringify commitData))))"

definition sprint_editFields ::
  "string option \<Rightarrow> string option \<Rightarrow> string option \<Rightarrow> jsval list" where
  "sprint_editFields name startDate endDate =
     (if truthy_opt name
      then [JObj [(''name'', JStr ''Name''), (''value'', JStr (the name))]] else [])
     @ (if truthy_opt startDate
        then [JObj [(''name'', JStr ''StartDate''), (''value'', JStr (the startDate))]] else [])
     @ (if truthy_opt endDate
        then [JObj [(''name'', JStr ''EndDate''), (''value'', JStr (the endDate))]] else [])"

text \<open>\<open>create_or_update_sprint\<close>: Step 1 (create mode, or the check of update mode),
  which yields \<open>targetDbid\<close>; Steps 2 and 3 (Edit and Commit); and the tool.\<close>

definition sprint_step1 ::
  "env \<Rightarrow> string \<Rightarrow> string option \<Rightarrow> string option \<Rightarrow> string option \<Rightarrow> string option
     \<Rightarrow> jsval js" where
  "sprint_step1 env application sprintDbid name startDate endDate =
     (if \<not> truthy_opt sprintDbid then
        (if \<not> truthy_opt name
         then js_throw (Error ''Name is required when creating a new sprint'')
         else create_empty env application ''Sprint'')
      else
        (if \<not> truthy_opt name \<and> \<not> truthy_opt startDate \<and> \<not> truthy_opt endDate
         then js_throw (Error
           ''At least one of name, startDate, or endDate must be provided for update'')
         else js_return (JStr (the sprintDbid))))"

definition sprint_steps23 ::
  "env \<Rightarrow> string \<Rightarrow> jsval \<Rightarrow> string option \<Rightarrow> string option \<Rightarrow> string option \<Rightarrow> bool
     \<Rightarrow> jsval js" where
  "sprint_steps23 env application targetDbid name startDate endDate isCreating =
     js_bind (record_patch env application ''Sprint'' targetDbid ''Edit''
                (JObj [(''fields'', JArr (sprint_editFields name startDate endDate))]))
       (\<lambda>editResponse.
     if \<not> ok editResponse then js_throw (step_failed ''Edit operation failed'' editResponse)
     else
     js_bind (response_json editResponse) (\<lambda>editData.
     commit_and_report env application ''Sprint'' targetDbid
       (sprint_commitFields name startDate endDate) isCreating))"

definition create_or_update_sprint ::
  "env \<Rightarrow> string \<Rightarrow> string option \<Rightarrow> string option \<Rightarrow> string option \<Rightarrow> string option
     \<Rightarrow> jsval js" where
  "create_or_update_sprint env application sprintDbid name startDate endDate =
     js_try
       (with_session env (
        js_bind (sprint_step1 env application sprintDbid name startDate endDate) (\<lambda>targetDbid.
        sprint_steps23 env application targetDbid name startDate endDate
          (\<not> truthy_opt sprintDbid))))
       (\<lambda>e. js_return (text_result
          (''Error '' @ (if truthy_opt sprintDbid then ''updating'' else ''creating'')
           @ '' sprint: '' @ message e)))"

text \<open>\<open>create_or_update_release\<close>, Step 2: the payload of the Edit call for one
  field, and the loop that issues one Edit call for each field.\<close>

definition release_fieldPayload :: "field_input \<Rightarrow> jsval" where
  "release_fieldPayload field =
     (if f_type field = Some ''REFERENCE_LIST''
      then JObj [(''name'', JStr (f_name field)),
                 (''valueAsList'', JArr (map JStr (map trim (js_split CHR '','' (f_value field)))))]
      else JObj [(''name'', JStr (f_name field)), (''value'', JStr (f_value field))])"

fun release_edit_loop :: "env \<Rightarrow> string \<Rightarrow> jsval \<Rightarrow> field_input list \<Rightarrow> unit js" where
  "release_edit_loop env application targetDbid [] = js_return ()"
| "release_edit_loop env application targetDbid (field # rest) =
     js_bind (record_patch env application ''Release'' targetDbid ''Edit''
                (JObj [(''fields'', JArr [release_fieldPayload field])])) (\<lambda>editResponse.
     if \<not> ok editResponse
     then js_throw (step_failed (''Edit operation failed for '' @ f_name field) editResponse)
     else
     js_bind (response_json editResponse) (\<lambda>editData.
     release_edit_loop env application targetDbid rest))"

text \<open>\<open>create_or_update_release\<close>: Step 1, which yields \<open>targetDbid\<close>; Steps 2 and
  3; and the tool.\<close>

definition release_step1 :: "env \<Rightarrow> string \<Rightarrow> string option \<Rightarrow> field_input list \<Rightarrow> jsval js" where
  "release_step1 env application releaseDbid fields' =
     (if \<not> truthy_opt releaseDbid then
        (if \<not> list_ex (\<lambda>f. f_name f = ''Name'') fields'
         then js_throw (Error ''Name field is required when creating a new release'')
         else create_empty env application ''Release'')
      else
        (if fields' = []
         then js_throw (Error ''At least one field must be provided for update'')
         else js_return (JStr (the releaseDbid))))"

definition release_steps23 ::
  "env \<Rightarrow> string \<Rightarrow> jsval \<Rightarrow> field_input list \<Rightarrow> bool \<Rightarrow> jsval js" where
  "release_steps23 env application targetDbid fields' isCreating =
     js_bind (release_edit_loop env application targetDbid fields') (\<lambda>_.
     commit_and_report env application ''Release'' targetDbid
       (map release_commitField fields') isCreating)"

definition create_or_update_release ::
  "env \<Rightarrow> string \<Rightarrow> string option \<Rightarrow> field_input list \<Rightarrow> jsval js" where
  "create_or_update_release env application releaseDbid fields' =
     js_try
       (with_session env (
        js_bind (release_step1 env application releaseDbid fields') (\<lambda>targetDbid.
        release_steps23 env application targetDbid fields' (\<not> truthy_opt releaseDbid))))
       (\<lambda>e. js_return (text_result
          (''Error '' @ (if truthy_opt releaseDbid then ''updating'' else ''creating'')
           @ '' release: '' @ message e)))"

text \<open>\<open>_updateEntity\<close>: the shared Edit and Commit helper; it throws where a tool
  would return.\<close>

definition updateEntity ::
  "env \<Rightarrow> string \<Rightarrow> string \<Rightarrow> string \<Rightarrow> jsval list \<Rightarrow> jsval list \<Rightarrow> (string \<times> jsval) list
     \<Rightarrow> jsval js" where
  "updateEntity env application entityType entityDbid editFields commitFields commitPayloadExtras =
     js_bind (ensureSession env) (\<lambda>have_cookies.
     if \<not> have_cookies then js_throw (Error ''Failed to retrieve cookies.'')
     else
     js_bind (record_patch env application entityType (JStr entityDbid) ''Edit''
                (JObj [(''fields'', JArr editFields)])) (\<lambda>editResponse.
     if \<not> ok editResponse then js_throw (step_failed ''Edit operation failed'' editResponse)
     else
     js_bind (response_json editResponse) (\<lambda>editData.
     js_bind (record_patch env application entityType (JStr entityDbid) ''Commit''
                (set_prop (JObj commitPayloadExtras) ''fields'' (JArr commitFields)))
       (\<lambda>commitResponse.
     if \<not> ok commitResponse then js_throw (step_failed ''Commit operation failed'' commitResponse)
     else response_json commitResponse))))"

section \<open>Work items\<close>

text \<open>
  \<open>get_available_workitem_types\<close>: \<open>row.values[2]\<close>, and the callback
  \<open>typesString.split('\n').map(type => type.trim())\<close>. For a row that is an array,
  \<open>row.values\<close> is the function \<open>Array.prototype.values\<close>, whose property \<open>2\<close> is
  \<open>undefined\<close>.
\<close>

fun index2 :: "jsval \<Rightarrow> js_error + jsval" where
  "index2 JUndefined = Inl (cannot_read JUndefined ''2'')"
| "index2 JNull = Inl (cannot_read JNull ''2'')"
| "index2 (JArr xs) = Inr (if 2 < length xs then xs ! 2 else JUndefined)"
| "index2 (JStr s) = Inr (if 2 < length s then JStr [s ! 2] else JUndefined)"
| "index2 (JObj ps) = Inr (get_own ps ''2'')"
| "index2 (JBool b) = Inr JUndefined"
| "index2 (JNum n) = Inr JUndefined"

fun row_typesString :: "jsval \<Rightarrow> js_error + jsval" where
  "row_typesString JUndefined = Inl (cannot_read JUndefined ''values'')"
| "row_typesString JNull = Inl (cannot_read JNull ''values'')"
| "row_typesString (JArr xs) = Inr JUndefined"
| "row_typesString (JObj ps) = index2 (get_own ps ''values'')"
| "row_typesString (JStr s) = index2 JUndefined"
| "row_typesString (JBool b) = index2 JUndefined"
| "row_typesString (JNum n) = index2 JUndefined"

fun split_types :: "jsval \<Rightarrow> js_error + string list" where
  "split_types (JStr s) = Inr (map trim (js_split CHR 0x0A s))"
| "split_types JUndefined = Inl (cannot_read JUndefined ''split'')"
| "split_types JNull = Inl (cannot_read JNull ''split'')"
| "split_types v = Inl (not_a_function ''typesString.split'')"

definition row_types :: "jsval \<Rightarrow> js_error + string list" where
  "row_types row =
     (case row_typesString row of Inl e \<Rightarrow> Inl e | Inr typesString \<Rightarrow> split_types typesString)"

text \<open>\<open>workItemTypesData.rows.map(...).flat()\<close>\<close>

definition workItemTypes_of :: "jsval \<Rightarrow> js_error + string list" where
  "workItemTypes_of rows =
     (case rows of
        JArr xs \<Rightarrow> (case map_throwing row_types xs of Inl e \<Rightarrow> Inl e | Inr tss \<Rightarrow> Inr (concat tss))
      | _ \<Rightarrow> Inl (not_a_function ''workItemTypesData.rows.map''))"

definition get_available_workitem_types :: "env \<Rightarrow> string \<Rightarrow> string \<Rightarrow> jsval js" where
  "get_available_workitem_types env application projectId =
     js_try
       (with_session env (
        js_bind (run_query env application
                   (queryPayload ''Project''
                      [shown_desc ''dbid'', shown ''Name'', shown ''WITypeList''] (JObj []))
                   False ''?pageNumber=1'') (\<lambda>workItemTypesData.
        js_bind (and_rows workItemTypesData) (\<lambda>rows.
        if truthy rows then
          js_bind (js_lift (workItemTypes_of rows)) (\<lambda>workItemTypes.
          js_return (text_result (''Available work item types: ''
                                  @ JSON_stringify (JArr (map JStr workItemTypes)))))
        else js_throw (Error ''Failed to retrieve work item types'')))))
       (\<lambda>e. js_return (text_result (''Error retrieving work item types: '' @ message e)))"

text \<open>\<open>createWorkItemBody\<close>, parsed: the request body that \<open>create_work_item\<close>
  fills in.\<close>

definition template_field :: "string \<Rightarrow> string \<Rightarrow> string \<Rightarrow> int \<Rightarrow> jsval" where
  "template_field n v t maxLength =
     JObj [(''name'', JStr n),
           (''value'', JStr v),
           (''valueStatus'', JStr ''HAS_VALUE''),
           (''validationStatus'', JStr ''_KNOWN_VALID''),
           (''requiredness'', JStr ''READONLY''),
           (''requirednessForUser'', JStr ''READONLY''),
           (''type'', JStr t),
           (''valueAsList'', JArr [JStr v]),
           (''messageText'', JStr ''''),
           (''maxLength'', JNum maxLength)]"

definition entity_ref :: jsval where
  "entity_ref =
     JObj [(''dbId'', JStr ''33554524''), (''displayName'', JStr ''string''),
           (''entityDefName'', JStr ''Project''), (''viewURL'', JStr ''string'')]"

definition createWorkItemBody :: jsval where
  "createWorkItemBody =
     JObj [(''dbId'', JStr ''33554505''),
           (''displayName'', JStr ''string''),
           (''entityDefName'', JStr ''Project''),
           (''fields'', JArr [
              template_field ''Component'' '''' ''REFERENCE'' 0,
              template_field ''dbid'' ''33554505'' ''DBID'' 0,
              template_field ''Project'' ''Devops Code'' ''REFERENCE'' 0,
              template_field ''record_type'' ''WorkItem'' ''RECORDTYPE'' 30,
              template_field ''Title'' ''Plan Item'' ''SHORT_STRING'' 254,
              template_field ''Description'' ''Plan Item'' ''MULTILINE_STRING'' 0,
              template_field ''WIType'' ''Task'' ''SHORT_STRING'' 254]),
           (''legalActions'', JArr [
              JObj [(''actionName'', JStr ''Submit''), (''formDefName'', JStr ''Defect_Base_Submit'')]]),
           (''isEditable'', JBool True),
           (''isDuplicate'', JBool True),
           (''original'', entity_ref),
           (''isOriginal'', JBool True),
           (''hasDuplicates'', JBool True),
           (''errorMessage'', JStr ''string''),
           (''duplicates'', JArr [JObj [(''child'', entity_ref), (''parent'', entity_ref)]]),
           (''viewURL'', JStr ''string'')]"

text \<open>\<open>bodyJSON.fields[i].value = v; bodyJSON.fields[i].valueAsList[0] = v\<close>, for an
  index \<open>i\<close> of the seven fields of the template.\<close>

definition set_first :: "jsval \<Rightarrow> jsval \<Rightarrow> jsval" where
  "set_first arr v = (case arr of JArr (x # xs) \<Rightarrow> JArr (v # xs) | JArr [] \<Rightarrow> JArr [v] | _ \<Rightarrow> arr)"

definition set_field :: "nat \<Rightarrow> string \<Rightarrow> jsval \<Rightarrow> jsval" where
  "set_field i v bodyJSON =
     (case js_prop bodyJSON ''fields'' of
        JArr fs \<Rightarrow>
          (let f1 = set_prop (fs ! i) ''value'' (JStr v);
               f2 = set_prop f1 ''valueAsList'' (set_first (js_prop f1 ''valueAsList'') (JStr v))
           in set_prop bodyJSON ''fields'' (JArr (fs[i := f2])))
      | _ \<Rightarrow> bodyJSON)"

definition create_work_item ::
  "env \<Rightarrow> string option \<Rightarrow> string \<Rightarrow> string \<Rightarrow> string \<Rightarrow> string \<Rightarrow> string \<Rightarrow> jsval js" where
  "create_work_item env component title description workItemType application projectId =
     js_try
       (with_session env (
        (let bodyJSON0 = (case component of None \<Rightarrow> createWorkItemBody
                          | Some c \<Rightarrow> set_field 0 c createWorkItemBody);
             bodyJSON = set_field 6 workItemType (set_field 5 description
                          (set_field 4 title (set_field 2 projectId bodyJSON0)))
         in
        js_bind (api_fetch env ''POST''
                   (db_url env application @ ''/records/WorkItem/?operation=Commit&useDbid=false'')
                   (Some ''application/json'') (Some (JSON_stringify bodyJSON))) (\<lambda>response.
        js_bind (response_json response) (\<lambda>data.
        js_bind (js_lift (js_get data ''viewURL'')) (\<lambda>viewURL.
        if truthy viewURL then
          js_bind (js_lift (js_get data ''dbId'')) (\<lambda>dbId.
          js_bind (js_lift (to_String dbId)) (\<lambda>dbId_text.
          js_bind (js_lift (to_String viewURL)) (\<lambda>viewURL_text.
          js_return (text_result (''Work item created successfully. dbId: '' @ dbId_text
                                  @ ''. View it at: '' @ serverURL env @ ''/#'' @ viewURL_text)))))
        else js_throw (Error ''Failed to create work item'')))))))
       (\<lambda>e. js_return (text_result (''Error creating work item: '' @ message e)))"

definition eq_filter :: "string \<Rightarrow> string \<Rightarrow> jsval" where
  "eq_filter path v =
     JObj [(''fieldPath'', JStr path), (''compOp'', JStr ''COMP_OP_EQ''), (''values'', JArr [JStr v])]"

definition workItems_queryPayload :: "string \<Rightarrow> string option \<Rightarrow> string option \<Rightarrow> jsval" where
  "workItems_queryPayload projectId workitemType owner =
     JObj [(''queryDef'',
             JObj [(''primaryEntityDefName'', JStr ''WorkItem''),
                   (''stateDriven'', JBool True),
                   (''showWipLimits'', JBool True),
                   (''backlogStateName'', JStr ''Backlog''),
                   (''laneQueryDef'',
                      JObj [(''pageCounterQueryField'', JStr ''State''),
                            (''pageCounterQueryFieldPath'', JStr ''State''),
                            (''wipLimitFilterQueryField'', JStr ''Project'')]),
                   (''queryFieldDefs'', JArr (map shown
                      [''dbid'', ''State'', ''id'', ''Title'', ''Owner.fullname'', ''Owner'',
                       ''Priority'', ''Parent.Title'', ''Parent'', ''Parent.record_type'', ''Tags'',
                       ''WIType'', ''Sprint'', ''PlannedRelease'', ''FoundInRelease''])),
                   (''filterNode'',
                      JObj [(''boolOp'', JStr ''BOOL_OP_AND''),
                            (''fieldFilters'', JArr (
                               [eq_filter ''Project'' projectId]
                               @ (if truthy_opt owner then [eq_filter ''Owner'' ''[CURRENT_USER]''] else [])
                               @ (if truthy_opt workitemType
                                  then [eq_filter ''WIType'' (the workitemType)] else [])))])]),
           (''resultSetOptions'',
             JObj [(''pageSize'', JNum 300), (''convertToLocalTime'', JBool True)])]"

definition get_work_items ::
  "env \<Rightarrow> string \<Rightarrow> string \<Rightarrow> string option \<Rightarrow> string option \<Rightarrow> jsval js" where
  "get_work_items env applicationName projectId workitemType owner =
     js_try
       (with_session env (
        js_bind (run_query env applicationName
                   (workItems_queryPayload projectId workitemType owner)
                   True ''?pageNumber=1'') (\<lambda>workItemsData.
        if truthy workItemsData then
          js_return (text_result (''Work items retrieved: '' @ JSON_stringify workItemsData))
        else js_throw (Error ''Failed to retrieve work items''))))
       (\<lambda>e. js_return (text_result (''Error retrieving work items: '' @ message e)))"

definition delete_work_item :: "env \<Rightarrow> string \<Rightarrow> string \<Rightarrow> jsval js" where
  "delete_work_item env dbid application =
     js_try
       (with_session env (
        js_bind (api_fetch env ''DELETE''
                   (db_url env application @ ''/records/WorkItem/'' @ dbid
                      @ ''?actionName=Delete&useDbid=true'') None None) (\<lambda>response.
        if ok response then
          js_return (text_result (''Work item '' @ dbid @ '' deleted successfully''))
        else js_throw (Error ''Failed to delete work item''))))
       (\<lambda>e. js_return (text_result (''Error deleting work item: '' @ message e)))"

text \<open>The error of a step of \<open>update_work_item\<close>:
  \<open>`${what}: ${response.statusText} - ${errorText}`\<close>\<close>

definition step_failed_text :: "string \<Rightarrow> response \<Rightarrow> js_error" where
  "step_failed_text what r = Error (what @ '': '' @ statusText r @ '' - '' @ body_text r)"

definition update_work_item :: "env \<Rightarrow> string \<Rightarrow> string \<Rightarrow> field_input list \<Rightarrow> jsval js" where
  "update_work_item env dbid application fields' =
     js_try
       (with_session env (
        js_bind (api_fetch env ''PATCH''
                   (db_url env application @ ''/records/WorkItem/'' @ dbid
                      @ ''?actionName=Modify&operation=Edit&useDbid=true'')
                   (Some ''application/json'') (Some ''{}'')) (\<lambda>modifyResponse.
        if \<not> ok modifyResponse then js_throw (step_failed_text ''Modify action failed'' modifyResponse)
        else
        js_bind (api_fetch env ''PATCH''
                   (db_url env application @ ''/records/WorkItem/'' @ dbid
                      @ ''?operation=Edit&useDbid=true'')
                   (Some ''application/json'')
                   (Some (JSON_stringify (JObj [(''fields'', JArr (map (\<lambda>field.
                      JObj [(''name'', JStr (f_name field)), (''value'', JStr (f_value field))])
                      fields'))])))) (\<lambda>editResponse.
        if \<not> ok editResponse then js_throw (step_failed_text ''Edit operation failed'' editResponse)
        else
        js_bind (response_json editResponse) (\<lambda>editData.
        js_bind (api_fetch env ''PATCH''
                   (db_url env application @ ''/records/WorkItem/'' @ dbid
                      @ ''?operation=Commit&useDbid=true'')
                   (Some ''application/json'')
                   (Some (JSON_stringify (JObj [(''dbId'', JStr dbid),
                      (''fields'', JArr (map workitem_commitField fields'))])))) (\<lambda>commitResponse.
        if ok commitResponse then
          js_bind (response_json commitResponse) (\<lambda>result.
          js_return (text_result (''Work item '' @ dbid @ '' updated successfully.''
             @ [CHR 0x0A, CHR 0x0A] @ ''Updated fields:'' @ [CHR 0x0A]
             @ js_join [CHR 0x0A] (map (\<lambda>f. ''- '' @ f_name f @ '': '' @ f_value f) fields'))))
        else js_throw (step_failed_text ''Commit operation failed'' commitResponse)))))))
       (\<lambda>e. js_return (text_result (''Error updating work item: '' @ message e)))"

text \<open>\<open>get_applications\<close>: the callback \<open>app => ({ id: app.dbId, applicationName:
  app.name })\<close>.\<close>

definition application_entry :: "jsval \<Rightarrow> js_error + jsval" where
  "application_entry app =
     (case js_get app ''dbId'' of
        Inl e \<Rightarrow> Inl e
      | Inr dbId \<Rightarrow>
          (case js_get app ''name'' of
             Inl e \<Rightarrow> Inl e
           | Inr n \<Rightarrow> Inr (JObj [(''id'', dbId), (''applicationName'', n)])))"

definition get_applications :: "env \<Rightarrow> jsval js" where
  "get_applications env =
     js_try
       (with_session env (
        js_bind (api_fetch env ''GET'' (databases_url env) (Some ''application/json'') None)
          (\<lambda>response.
        js_bind (response_json response) (\<lambda>data.
        (case data of
           JArr apps \<Rightarrow>
             js_bind (js_lift (map_throwing application_entry apps)) (\<lambda>applications.
             js_return (text_result (''Applications retrieved: ''
                                     @ JSON_stringify (JArr applications))))
         | _ \<Rightarrow> js_throw (Error ''Failed to retrieve applications''))))))
       (\<lambda>e. js_return (text_result (''Error retrieving applications: '' @ message e)))"

section \<open>States of work items\<close>

text \<open>
  \<open>get_available_states\<close> collects, in the object \<open>stateTransitions\<close>, for every source
  state the list of \<open>{ action, toState }\<close> entries. The object is modelled as the list of
  its keys, in insertion order, with their lists. An entry records the action it stems
  from (the indices of the work item and of the action): \<open>===\<close> on arrays and objects
  compares identities, and two parsed values are identical only if they are the same
  property of the same action.
\<close>

type_synonym transition = "(nat \<times> nat) \<times> jsval \<times> jsval"

type_synonym transitions = "(string \<times> transition list) list"

text \<open>\<open>a === b\<close>, where \<open>same\<close> tells whether both stem from the same action.\<close>

fun is_object :: "jsval \<Rightarrow> bool" where
  "is_object (JArr xs) = True"
| "is_object (JObj ps) = True"
| "is_object v = False"

definition strict_equal :: "bool \<Rightarrow> jsval \<Rightarrow> jsval \<Rightarrow> bool" where
  "strict_equal same a b = (if is_object a \<or> is_object b then same else a = b)"

text \<open>The property names every object inherits from \<open>Object.prototype\<close>: for these
  keys \<open>stateTransitions[key]\<close> is a function (or the prototype object) without a
  \<open>find\<close> method.\<close>

definition object_prototype_names :: "string list" where
  "object_prototype_names =
     [''constructor'', ''__defineGetter__'', ''__defineSetter__'', ''hasOwnProperty'',
      ''__lookupGetter__'', ''__lookupSetter__'', ''isPrototypeOf'', ''propertyIsEnumerable'',
      ''toString'', ''valueOf'', ''__proto__'', ''toLocaleString'']"

fun lookup_transitions :: "transitions \<Rightarrow> string \<Rightarrow> transition list option" where
  "lookup_transitions [] k = None"
| "lookup_transitions ((k', ts) # st) k = (if k' = k then Some ts else lookup_transitions st k)"

fun append_transition :: "transitions \<Rightarrow> string \<Rightarrow> transition \<Rightarrow> transitions" where
  "append_transition [] k t = [(k, [t])]"
| "append_transition ((k', ts) # st) k t =
     (if k' = k then (k', ts @ [t]) # st else (k', ts) # append_transition st k t)"

text \<open>The callback of \<open>sourceStates.forEach\<close>.\<close>

definition add_source_state ::
  "(nat \<times> nat) \<Rightarrow> jsval \<Rightarrow> jsval \<Rightarrow> jsval \<Rightarrow> transitions \<Rightarrow> js_error + transitions" where
  "add_source_state origin actionName destState sourceState st =
     (case to_String sourceState of
        Inl e \<Rightarrow> Inl e
      | Inr key \<Rightarrow>
          if key \<in> set object_prototype_names
          then Inl (not_a_function ''stateTransitions[sourceState].find'')
          else (let st1 = (case lookup_transitions st key of
                             None \<Rightarrow> st @ [(key, [])]
                           | Some ts \<Rightarrow> st);
                    existing = (case lookup_transitions st key of None \<Rightarrow> [] | Some ts \<Rightarrow> ts)
                in if list_ex (\<lambda>(origin', action', toState').
                                 strict_equal (origin' = origin) action' actionName
                                 \<and> strict_equal (origin' = origin) toState' destState) existing
                   then Inr st1
                   else Inr (append_transition st1 key (origin, actionName, destState))))"

text \<open>\<open>xs.forEach(f)\<close> for a callback that updates the collected transitions and may
  throw.\<close>

fun for_each :: "('a \<Rightarrow> 's \<Rightarrow> js_error + 's) \<Rightarrow> 'a list \<Rightarrow> 's \<Rightarrow> js_error + 's" where
  "for_each f [] s = Inr s"
| "for_each f (x # xs) s = (case f x s of Inl e \<Rightarrow> Inl e | Inr s' \<Rightarrow> for_each f xs s')"

text \<open>The callback of \<open>workItem.actions.forEach\<close>, for the action of index \<open>j\<close> of the
  work item of index \<open>i\<close>.\<close>

definition visit_action :: "nat \<Rightarrow> nat \<times> jsval \<Rightarrow> transitions \<Rightarrow> js_error + transitions" where
  "visit_action i ja st =
     (case js_get (snd ja) ''actionType'' of
        Inl e \<Rightarrow> Inl e
      | Inr actionType \<Rightarrow>
          if actionType = JStr ''_CHANGE_STATE'' then
            (let actionName = js_prop (snd ja) ''name'';
                 destState = js_prop (snd ja) ''actionDestStateName'';
                 names = js_prop (snd ja) ''actionSourceStateNames'';
                 sourceStates = (if truthy names then names else JArr [])
             in case sourceStates of
                  JArr xs \<Rightarrow> for_each (add_source_state (i, fst ja) actionName destState) xs st
                | _ \<Rightarrow> Inl (not_a_function ''sourceStates.forEach''))
          else Inr st)"

text \<open>The callback of \<open>data.forEach\<close>.\<close>

definition visit_workItem :: "nat \<times> jsval \<Rightarrow> transitions \<Rightarrow> js_error + transitions" where
  "visit_workItem iw st =
     (case js_get (snd iw) ''actions'' of
        Inl e \<Rightarrow> Inl e
      | Inr actions \<Rightarrow>
          (case actions of
             JArr acts \<Rightarrow> for_each (visit_action (fst iw)) (enumerate 0 acts) st
           | _ \<Rightarrow> Inr st))"

text \<open>
  \<open>Object.entries\<close> lists the keys that are array indices (canonical decimal numerals
  up to \<open>2^32 - 2\<close>) first, in ascending order, and then the other keys in insertion
  order.
\<close>

definition is_digit :: "char \<Rightarrow> bool" where
  "is_digit c = (c \<in> set ''0123456789'')"

definition read_nat :: "string \<Rightarrow> nat" where
  "read_nat s = foldl (\<lambda>n c. 10 * n + (of_char c - 48)) 0 s"

definition array_index :: "string \<Rightarrow> nat option" where
  "array_index s =
     (if s \<noteq> [] \<and> list_all is_digit s \<and> (s = ''0'' \<or> hd s \<noteq> CHR ''0'')
         \<and> read_nat s \<le> 4294967294
      then Some (read_nat s) else None)"

definition object_entries :: "transitions \<Rightarrow> transitions" where
  "object_entries st =
     sort_key (\<lambda>kv. the (array_index (fst kv))) (filter (\<lambda>kv. array_index (fst kv) \<noteq> None) st)
     @ filter (\<lambda>kv. array_index (fst kv) = None) st"

text \<open>One line per transition, one block per source state.\<close>

definition format_transition :: "transition \<Rightarrow> js_error + string" where
  "format_transition t =
     (case to_String (fst (snd t)) of
        Inl e \<Rightarrow> Inl e
      | Inr action \<Rightarrow>
          (case to_String (snd (snd t)) of
             Inl e \<Rightarrow> Inl e
           | Inr toState \<Rightarrow>
               Inr (''  - Action: '' @ [CHR 0x22] @ action @ [CHR 0x22] @ '' -> To: ''
                    @ [CHR 0x22] @ toState @ [CHR 0x22] @ [CHR 0x0A])))"

definition format_entry :: "string \<times> transition list \<Rightarrow> js_error + string" where
  "format_entry kv =
     (case map_throwing format_transition (snd kv) of
        Inl e \<Rightarrow> Inl e
      | Inr ls \<Rightarrow>
          Inr (''From '' @ [CHR 0x22] @ fst kv @ [CHR 0x22] @ '':'' @ [CHR 0x0A] @ concat ls
               @ [CHR 0x0A]))"

text \<open>\<open>formattedResponse\<close>, from the parsed response.\<close>

definition formattedResponse :: "jsval \<Rightarrow> js_error + string" where
  "formattedResponse data =
     (case data of
        JArr workItems \<Rightarrow>
          (case for_each visit_workItem (enumerate 0 workItems) [] of
             Inl e \<Rightarrow> Inl e
           | Inr stateTransitions \<Rightarrow>
               if stateTransitions \<noteq> [] then
                 (case map_throwing format_entry (object_entries stateTransitions) of
                    Inl e \<Rightarrow> Inl e
                  | Inr blocks \<Rightarrow>
                      Inr (''State Transition Matrix:'' @ [CHR 0x0A, CHR 0x0A] @ concat blocks))
               else Inr (''State Transition Matrix:'' @ [CHR 0x0A, CHR 0x0A]
                         @ ''No state transitions found in the work items.'' @ [CHR 0x0A]))
      | _ \<Rightarrow>
          Inr (''State Transition Matrix:'' @ [CHR 0x0A, CHR 0x0A]
               @ ''Unexpected response format. Raw data:'' @ [CHR 0x0A]
               @ (case stringify2 [] data of None \<Rightarrow> ''undefined'' | Some s \<Rightarrow> s)))"

definition get_available_states :: "env \<Rightarrow> string \<Rightarrow> jsval js" where
  "get_available_states env application =
     js_try
       (with_session env (
        js_bind (api_fetch env ''GET'' (db_url env application @ ''/records/WorkItem'')
                   (Some ''application/json, text/plain, */*'') None) (\<lambda>response.
        if \<not> ok response then
          js_throw (Error (''Failed to get state transition matrix with status ''
                           @ show_nat (status response) @ '': '' @ body_text response))
        else
        js_bind (response_json response) (\<lambda>data.
        js_bind (js_lift (formattedResponse data)) (\<lambda>formatted.
        js_return (text_result (formatted @ [CHR 0x0A, CHR 0x0A] @ ''Raw data: ''
                                @ JSON_stringify data)))))))
       (\<lambda>e. js_return (text_result (''Error retrieving state transition matrix: '' @ message e)))"

text \<open>\<open>change_work_item_state\<close>: the handler of its \<open>catch\<close>, the \<open>try\<close> block
  after the session is acquired, and the tool.\<close>

definition state_change_error :: "string \<Rightarrow> string \<Rightarrow> js_error \<Rightarrow> jsval" where
  "state_change_error dbid targetState e =
     (if js_includes (message e) ''status 400'' \<or> js_includes (message e) ''status 422''
      then text_result (''State transition error: The transition from current state to ''
                        @ [CHR 0x27] @ targetState @ [CHR 0x27]
                        @ '' may not be valid for work item '' @ dbid @ ''. Error: '' @ message e)
      else text_result (''Error changing work item state: '' @ message e))"

definition change_state_steps :: "env \<Rightarrow> string \<Rightarrow> string \<Rightarrow> string \<Rightarrow> jsval js" where
  "change_state_steps env dbid application targetState =
     js_bind (api_fetch env ''GET''
                (db_url env application @ ''/records/WorkItem/'' @ dbid @ ''?useDbid=true'')
                None None) (\<lambda>getCurrentResponse.
     if \<not> ok getCurrentResponse then
       js_throw (Error (''Failed to get current work item data with status ''
                        @ show_nat (status getCurrentResponse) @ '': ''
                        @ body_text getCurrentResponse))
     else
     js_bind (response_json getCurrentResponse) (\<lambda>currentWorkItem.
     js_bind (api_fetch env ''PATCH''
                (db_url env application @ ''/records/WorkItem/'' @ dbid @ ''?actionName=''
                   @ targetState @ ''&operation=Edit&useDbid=true'')
                None (Some ''{}'')) (\<lambda>movementResponse.
     if \<not> ok movementResponse then
       js_throw (Error (''Movement request failed with status ''
                        @ show_nat (status movementResponse) @ '': ''
                        @ body_text movementResponse))
     else
     js_bind (response_json movementResponse) (\<lambda>movementData.
     js_bind (delay 1000) (\<lambda>_.
     js_bind (js_lift (js_get movementData ''dbId'')) (\<lambda>dbId.
     js_bind (api_fetch env ''PATCH''
                (db_url env application @ ''/records/WorkItem/'' @ dbid
                   @ ''?operation=Commit&useDbid=true'')
                None (Some (JSON_stringify (JObj [(''dbId'', dbId), (''fields'', JArr [])]))))
       (\<lambda>commitResponse.
     if \<not> ok commitResponse then
       js_throw (Error (''Commit request failed with status ''
                        @ show_nat (status commitResponse) @ '': ''
                        @ body_text commitResponse))
     else
     js_bind (response_json commitResponse) (\<lambda>commitData.
     js_return (text_result (''Work item '' @ dbid @ '' state successfully changed to ''
        @ [CHR 0x27] @ targetState @ [CHR 0x27]
        @ ''. Both movement and commit operations completed successfully.''))))))))))"

definition change_work_item_state :: "env \<Rightarrow> string \<Rightarrow> string \<Rightarrow> string \<Rightarrow> jsval js" where
  "change_work_item_state env dbid application targetState =
     js_try
       (with_session env (change_state_steps env dbid application targetState))
       (\<lambda>e. js_return (state_change_error dbid targetState e))"

section \<open>The tools the server exposes\<close>

text \<open>One invocation of a tool, with the arguments its zod schema admits.\<close>

datatype invocation =
    Get_available_projects string
  | Get_available_components string string
  | Get_sprints string
  | Get_releases string
  | Create_or_update_sprint string "string option" "string option" "string option" "string option"
  | Create_or_update_release string "string option" "field_input list"
  | Get_available_workitem_types string string
  | Create_work_item "string option" string string string string string
  | Get_work_items string string "string option" "string option"
  | Delete_work_item string string
  | Update_work_item string string "field_input list"
  | Get_applications
  | Get_available_states string
  | Change_work_item_state string string string

fun call_tool :: "env \<Rightarrow> invocation \<Rightarrow> jsval js" where
  "call_tool env (Get_available_projects application) = get_available_projects env application"
| "call_tool env (Get_available_components application projectId) =
     get_available_components env application projectId"
| "call_tool env (Get_sprints application) = get_sprints env application"
| "call_tool env (Get_releases application) = get_releases env application"
| "call_tool env (Create_or_update_sprint application sprintDbid name startDate endDate) =
     create_or_update_sprint env application sprintDbid name startDate endDate"
| "call_tool env (Create_or_update_release application releaseDbid fields') =
     create_or_update_release env application releaseDbid fields'"
| "call_tool env (Get_available_workitem_types application projectId) =
     get_available_workitem_types env application projectId"
| "call_tool env (Create_work_item component title description workItemType application projectId) =
     create_work_item env component title description workItemType application projectId"
| "call_tool env (Get_work_items applicationName projectId workitemType owner) =
     get_work_items env applicationName projectId workitemType owner"
| "call_tool env (Delete_work_item dbid application) = delete_work_item env dbid application"
| "call_tool env (Update_work_item dbid application fields') =
     update_work_item env dbid application fields'"
| "call_tool env Get_applications = get_applications env"
| "call_tool env (Get_available_states application) = get_available_states env application"
| "call_tool env (Change_work_item_state dbid application targetState) =
     change_work_item_state env dbid application targetState"

section \<open>Notions used in the statements\<close>

text \<open>The four columns of the encoding table, read from a descriptor: type, value,
  valueAsList and maxLength.\<close>

definition descriptor_row :: "jsval \<Rightarrow> jsval \<times> jsval \<times> jsval \<times> jsval" where
  "descriptor_row d =
     (js_prop d ''type'', js_prop d ''value'', js_prop d ''valueAsList'', js_prop d ''maxLength'')"

text \<open>
  The reading side of the encoding table, which the specification calls the type-specific
  rule (it is no part of the server): a DATE_TIME value gives up its suffix
  \<open>" 00:00:00"\<close>, a REFERENCE_LIST gives its parts joined by commas, and every other
  type gives its value.
\<close>

definition has_time_suffix :: "string \<Rightarrow> bool" where
  "has_time_suffix v = (9 \<le> length v \<and> drop (length v - 9) v = '' 00:00:00'')"

fun strings_of :: "jsval list \<Rightarrow> string list" where
  "strings_of [] = []"
| "strings_of (JStr s # xs) = s # strings_of xs"
| "strings_of (x # xs) = strings_of xs"

definition decode_descriptor :: "jsval \<Rightarrow> string option" where
  "decode_descriptor d =
     (case descriptor_row d of
        (JStr t, JStr v, JArr parts, m) \<Rightarrow>
          if t = ''DATE_TIME'' then
            (if has_time_suffix v then Some (take (length v - 9) v) else None)
          else if t = ''REFERENCE_LIST'' then Some (js_join '','' (strings_of parts))
          else Some v
      | _ \<Rightarrow> None)"

text \<open>One exchange with the network: in the world \<open>w\<close> the request \<open>req\<close> is answered
  by the response \<open>resp\<close>, which leaves the world \<open>w'\<close>.\<close>

definition exchange :: "env \<Rightarrow> world \<Rightarrow> request \<Rightarrow> response \<Rightarrow> world \<Rightarrow> bool" where
  "exchange env w req resp w' =
     (network env (trace w) req = Inr resp \<and> w' = w\<lparr>trace := trace w @ [Fetch req]\<rparr>)"

text \<open>The cookie that the bootstrap call yields in the world \<open>w\<close>, if any.\<close>

definition bootstrap_cookie :: "env \<Rightarrow> world \<Rightarrow> string option" where
  "bootstrap_cookie env w =
     (case network env (trace w) (bootstrap_request env) of
        Inl msg \<Rightarrow> None
      | Inr r \<Rightarrow> if ok r \<and> set_cookie r \<noteq> Some [] then set_cookie r else None)"

text \<open>The events that the run from the world \<open>w\<close> to the world \<open>w'\<close> added.\<close>

definition events_since :: "world \<Rightarrow> world \<Rightarrow> event list" where
  "events_since w w' = drop (length (trace w)) (trace w')"

fun is_fetch :: "event \<Rightarrow> bool" where
  "is_fetch (Fetch r) = True"
| "is_fetch (Delay n) = False"

text \<open>An event that reuses the session \<open>g\<close>: a delay, or a request other than the
  bootstrap call that carries \<open>g\<close> in its \<open>Cookie\<close> header.\<close>

fun sends_cookie :: "env \<Rightarrow> string option \<Rightarrow> event \<Rightarrow> bool" where
  "sends_cookie env g (Fetch r) =
     (r \<noteq> bootstrap_request env \<and> (''Cookie'', cookie_header g) \<in> set (headers r))"
| "sends_cookie env g (Delay n) = True"

fun is_components :: "invocation \<Rightarrow> bool" where
  "is_components (Get_available_components application projectId) = True"
| "is_components call = False"

text \<open>The request of the create step of a Sprint or Release: a POST with
  \<open>operation=Edit\<close> and the body \<open>{"fields":[]}\<close>.\<close>

definition create_request :: "env \<Rightarrow> string option \<Rightarrow> string \<Rightarrow> string \<Rightarrow> request" where
  "create_request env g application entity =
     api_request env g ''POST''
       (db_url env application @ ''/records/'' @ entity @ ''?operation=Edit&useDbid=true'')
       None (Some (JSON_stringify (JObj [(''fields'', JArr [])])))"

text \<open>The URL of an Edit or Commit call on the record \<open>dbid\<close> of an entity:
  \<open>.../records/${entity}/${dbid}?operation=${operation}&useDbid=true\<close>. An event is
  an Edit or Commit PATCH on that record if it is a PATCH request to one of the two URLs,
  with a body and with the headers of an API call that carries the session \<open>g\<close>.\<close>

definition record_url :: "env \<Rightarrow> string \<Rightarrow> string \<Rightarrow> string \<Rightarrow> string \<Rightarrow> string" where
  "record_url env application entity dbid operation =
     db_url env application @ ''/records/'' @ entity @ ''/'' @ dbid
       @ ''?operation='' @ operation @ ''&useDbid=true''"

fun is_edit_or_commit ::
  "env \<Rightarrow> string option \<Rightarrow> string \<Rightarrow> string \<Rightarrow> string \<Rightarrow> event \<Rightarrow> bool" where
  "is_edit_or_commit env g application entity dbid (Fetch r) =
     (http_method r = ''PATCH''
      \<and> (url r = record_url env application entity dbid ''Edit''
         \<or> url r = record_url env application entity dbid ''Commit'')
      \<and> headers r = api_headers env None g
      \<and> body r \<noteq> None)"
| "is_edit_or_commit env g application entity dbid (Delay n) = False"

text \<open>The record that the create step makes, in the world \<open>w\<close> reached after the
  session block: the \<open>dbId\<close> of the parsed response to the POST, as the string that
  \<open>${targetDbid}\<close> renders; there is none if the call fails, the response is not OK or
  not JSON, or \<open>dbId\<close> cannot be read or rendered.\<close>

definition created_dbid :: "env \<Rightarrow> world \<Rightarrow> string \<Rightarrow> string \<Rightarrow> string option" where
  "created_dbid env w application entity =
     (case network env (trace w) (create_request env (globalCookies w) application entity) of
        Inl msg \<Rightarrow> None
      | Inr createResponse \<Rightarrow>
          if \<not> ok createResponse then None
          else (case body_json createResponse of
                  Inl msg \<Rightarrow> None
                | Inr createData \<Rightarrow>
                    (case js_get createData ''dbId'' of
                       Inl e \<Rightarrow> None
                     | Inr dbId \<Rightarrow>
                         (case to_String dbId of Inl e \<Rightarrow> None | Inr dbid \<Rightarrow> Some dbid))))"

text \<open>The events \<open>evs\<close> are Edit and Commit PATCHes on the created record, and there
  are none if no record was created.\<close>

definition edits_and_commits :: "env \<Rightarrow> world \<Rightarrow> string \<Rightarrow> string \<Rightarrow> event list \<Rightarrow> bool" where
  "edits_and_commits env w application entity evs =
     (case created_dbid env w application entity of
        None \<Rightarrow> evs = []
      | Some dbid \<Rightarrow>
          list_all (is_edit_or_commit env (globalCookies w) application entity dbid) evs)"

text \<open>The events of a state change that succeeds, with the session \<open>g\<close> and the
  \<open>dbId\<close> that the action response carries; and its result.\<close>

definition state_change_requests ::
  "env \<Rightarrow> string option \<Rightarrow> string \<Rightarrow> string \<Rightarrow> string \<Rightarrow> jsval \<Rightarrow> event list" where
  "state_change_requests env g dbid application targetState dbId =
     [Fetch (api_request env g ''GET''
               (db_url env application @ ''/records/WorkItem/'' @ dbid @ ''?useDbid=true'') None None),
      Fetch (api_request env g ''PATCH''
               (db_url env application @ ''/records/WorkItem/'' @ dbid @ ''?actionName=''
                  @ targetState @ ''&operation=Edit&useDbid=true'') None (Some ''{}'')),
      Delay 1000,
      Fetch (api_request env g ''PATCH''
               (db_url env application @ ''/records/WorkItem/'' @ dbid
                  @ ''?operation=Commit&useDbid=true'')
               None (Some (JSON_stringify (JObj [(''dbId'', dbId), (''fields'', JArr [])]))))]"

definition state_changed :: "string \<Rightarrow> string \<Rightarrow> jsval" where
  "state_changed dbid targetState =
     text_result (''Work item '' @ dbid @ '' state successfully changed to ''
        @ [CHR 0x27] @ targetState @ [CHR 0x27]
        @ ''. Both movement and commit operations completed successfully.'')"

text \<open>The text of the invalid-transition message for the error message \<open>msg\<close>.\<close>

definition transition_error_text :: "string \<Rightarrow> string \<Rightarrow> string \<Rightarrow> string" where
  "transition_error_text dbid targetState msg =
     ''State transition error: The transition from current state to ''
     @ [CHR 0x27] @ targetState @ [CHR 0x27]
     @ '' may not be valid for work item '' @ dbid @ ''. Error: '' @ msg"

text \<open>The query of \<open>get_available_components\<close>, and the result of its \<open>catch\<close>.\<close>

definition components_payload :: jsval where
  "components_payload =
     queryPayload ''Component'' [shown0 ''Name'', shown0 ''dbid'', shown0 ''record_type'']
       options_10000"

definition components_failure :: jsval where
  "components_failure = text_result ''Components retrieved: \"[]\"''"

subsection \<open>Sample servers\<close>

text \<open>A response with a JSON body, and a session cookie for the bootstrap call.\<close>

definition json_response :: "nat \<Rightarrow> jsval \<Rightarrow> response" where
  "json_response code v =
     \<lparr>status = code, statusText = '''', set_cookie = Some ''JSESSIONID=abc'',
      body_text = JSON_stringify v, body_json = Inr v\<rparr>"

definition plan_env :: "(event list \<Rightarrow> request \<Rightarrow> string + response) \<Rightarrow> env" where
  "plan_env net =
     \<lparr>personal_access_token_string = ''token'', serverURL = ''https://plan.example.com'',
      teamspaceID = ''ts1'', network = net\<rparr>"

text \<open>A server that cannot be reached; one that answers every request with \<open>{}\<close>;
  one that answers a query with a result set id and a page request with \<open>{}\<close> or with
  \<open>{"rows":[]}\<close>; one that answers every request with \<open>{"dbId":"77"}\<close>; and one
  that rejects the Commit of a state change.\<close>

definition unreachable :: "event list \<Rightarrow> request \<Rightarrow> string + response" where
  "unreachable tr req = Inl ''fetch failed''"

definition empty_server :: "event list \<Rightarrow> request \<Rightarrow> string + response" where
  "empty_server tr req = Inr (json_response 200 (JObj []))"

definition no_rows_server :: "event list \<Rightarrow> request \<Rightarrow> string + response" where
  "no_rows_server tr req =
     Inr (json_response 200
            (if http_method req = ''POST'' then JObj [(''result_set_id'', JStr ''rs1'')] else JObj []))"

definition session_server :: "event list \<Rightarrow> request \<Rightarrow> string + response" where
  "session_server tr req =
     Inr (json_response 200
            (if http_method req = ''POST'' then JObj [(''result_set_id'', JStr ''rs1'')]
             else JObj [(''rows'', JArr [])]))"

definition created_server :: "event list \<Rightarrow> request \<Rightarrow> string + response" where
  "created_server tr req = Inr (json_response 200 (JObj [(''dbId'', JStr ''77'')]))"

definition reject_commit_server :: "event list \<Rightarrow> request \<Rightarrow> string + response" where
  "reject_commit_server tr req =
     Inr (if http_method req = ''PATCH'' \<and> body req \<noteq> Some ''{}''
          then json_response 422 (JObj [(''message'', JStr ''Action not allowed'')])
          else json_response 200 (JObj [(''dbId'', JStr ''42'')]))"

subsection \<open>Notions used in the proofs\<close>

text \<open>
  \<open>emits Q m\<close>: the computation \<open>m\<close> leaves \<open>globalCookies\<close> as it is, and every event it
  adds satisfies \<open>Q\<close> for the session it started with. \<open>yields P m\<close>: whatever \<open>m\<close>
  returns satisfies \<open>P\<close>. \<open>tool_shape Q P env t\<close>: the tool \<open>t\<close> is a \<open>try\<close> block that
  opens with the session block and goes on with steps that emit \<open>Q\<close> and yield \<open>P\<close>, and
  its \<open>catch\<close> returns a result that satisfies \<open>P\<close>.
\<close>

definition emits :: "(string option \<Rightarrow> event \<Rightarrow> bool) \<Rightarrow> 'a js \<Rightarrow> bool" where
  "emits Q m =
     (\<forall>w. globalCookies (snd (m w)) = globalCookies w
          \<and> (\<exists>evs. trace (snd (m w)) = trace w @ evs \<and> list_all (Q (globalCookies w)) evs))"

definition yields :: "('a \<Rightarrow> bool) \<Rightarrow> 'a js \<Rightarrow> bool" where
  "yields P m = (\<forall>w x w'. m w = (Inr x, w') \<longrightarrow> P x)"

definition api_events :: "(string option \<Rightarrow> event \<Rightarrow> bool) \<Rightarrow> env \<Rightarrow> bool" where
  "api_events Q env = (\<forall>g meth u a b. Q g (Fetch (api_request env g meth u a b)))"

definition tool_shape ::
  "(string option \<Rightarrow> event \<Rightarrow> bool) \<Rightarrow> (jsval \<Rightarrow> bool) \<Rightarrow> env \<Rightarrow> jsval js \<Rightarrow> bool" where
  "tool_shape Q P env t =
     (\<exists>rest h. t = js_try (with_session env rest) (\<lambda>e. js_return (h e))
              \<and> emits Q rest \<and> yields P rest \<and> (\<forall>e. P (h e)))"

named_theorems emits_intros

named_theorems yields_intros

section \<open>Splitting, joining and trimming\<close>

lemma js_split_nonempty: "js_split c s \<noteq> []"
  by (induction s) (auto split: list.splits)

lemma js_join_Cons: "ps \<noteq> [] \<Longrightarrow> js_join sep (p # ps) = p @ sep @ js_join sep ps"
  by (cases ps) simp_all

text \<open>Splitting loses nothing: joining the parts by the separator gives the string back,
  and no part holds the separator.\<close>

lemma js_join_split: "js_join [c] (js_split c s) = s"
proof (induction s)
  case Nil
  then show ?case by simp
next
  case (Cons x xs)
  show ?case
  proof (cases "x = c")
    case True
    then show ?thesis using Cons js_split_nonempty[of c xs] by (simp add: js_join_Cons)
  next
    case False
    obtain p ps where sp: "js_split c xs = p # ps"
      using js_split_nonempty[of c xs] by (cases "js_split c xs") auto
    then show ?thesis using False Cons by (cases ps) simp_all
  qed
qed

lemma js_split_no_sep: "list_all (\<lambda>p. c \<notin> set p) (js_split c s)"
  by (induction s) (auto split: list.splits)

text \<open>Trimming removes white space at both ends and nothing else.\<close>

lemma trim_no_outer_space:
  "trim s = [] \<or> (\<not> is_js_whitespace (hd (trim s)) \<and> \<not> is_js_whitespace (last (trim s)))"
proof -
  let ?u = "dropWhile is_js_whitespace s"
  let ?v = "dropWhile is_js_whitespace (rev ?u)"
  have t: "trim s = rev ?v" by (simp add: trim_def)
  show ?thesis
  proof (cases "?v = []")
    case True
    then show ?thesis by (simp add: t)
  next
    case False
    then have hv: "\<not> is_js_whitespace (hd ?v)" by (rule hd_dropWhile)
    from False have une: "?u \<noteq> []" by (cases "?u = []") simp_all
    then have hu: "\<not> is_js_whitespace (hd ?u)" by (rule hd_dropWhile)
    have "\<exists>ws. rev ?u = ws @ ?v" by (metis takeWhile_dropWhile_id)
    then obtain ws where "rev ?u = ws @ ?v" ..
    then have "?u = rev ?v @ rev ws" by (metis rev_append rev_rev_ident)
    then have "hd ?u = hd (rev ?v)" using False by (metis hd_append2 rev_is_Nil_conv)
    then have "\<not> is_js_whitespace (hd (trim s))" using hu t by simp
    moreover have "last (trim s) = hd ?v" using False t by (simp add: last_rev)
    ultimately show ?thesis using hv by simp
  qed
qed

lemma trim_inside:
  "\<exists>a b. s = a @ trim s @ b \<and> list_all is_js_whitespace a \<and> list_all is_js_whitespace b"
proof -
  let ?u = "dropWhile is_js_whitespace s"
  let ?a = "takeWhile is_js_whitespace s"
  let ?b = "takeWhile is_js_whitespace (rev ?u)"
  have 1: "s = ?a @ ?u" by simp
  have "rev ?u = ?b @ dropWhile is_js_whitespace (rev ?u)" by simp
  then have "?u = rev (dropWhile is_js_whitespace (rev ?u)) @ rev ?b"
    by (metis rev_append rev_rev_ident)
  then have 2: "?u = trim s @ rev ?b" by (simp add: trim_def)
  have "s = ?a @ trim s @ rev ?b" using 1 2 by metis
  moreover have "list_all is_js_whitespace ?a" by (simp add: list_all_iff) (meson set_takeWhileD)
  moreover have "list_all is_js_whitespace (rev ?b)" by (simp add: list_all_iff) (meson set_takeWhileD)
  ultimately show ?thesis by blast
qed

section \<open>The encoding of field descriptors\<close>

lemma has_time_suffix_append: "has_time_suffix (d @ '' 00:00:00'')"
  by (simp add: has_time_suffix_def)

text \<open>
  C1, as amended. The Release builder encodes SHORT_STRING and an unspecified type as the
  raw string, its singleton list and maxLength 254; MULTILINE_STRING likewise with
  maxLength 0; REFERENCE_LIST as the comma-split, trimmed parts, their join by newline
  and maxLength 0. The Sprint builder encodes the name as SHORT_STRING with maxLength 254
  and each date as DATE_TIME, with the suffix \<open>" 00:00:00"\<close> in the value and in the
  list, and maxLength 0. The work-item builder encodes a non-empty value of an explicit
  SHORT_STRING or MULTILINE_STRING type as the raw string, its singleton list and
  maxLength 254 or 0. In all these cases but REFERENCE_LIST the type-specific rule
  recovers the input from the descriptor.
\<close>

theorem commit_descriptor_table:
  "descriptor_row (release_commitField \<lparr>f_name = n, f_value = v, f_type = Some ''SHORT_STRING''\<rparr>)
     = (JStr ''SHORT_STRING'', JStr v, JArr [JStr v], JNum 254)
   \<and> descriptor_row (release_commitField \<lparr>f_name = n, f_value = v, f_type = None\<rparr>)
     = (JStr ''SHORT_STRING'', JStr v, JArr [JStr v], JNum 254)
   \<and> descriptor_row (release_commitField \<lparr>f_name = n, f_value = v, f_type = Some ''MULTILINE_STRING''\<rparr>)
     = (JStr ''MULTILINE_STRING'', JStr v, JArr [JStr v], JNum 0)
   \<and> descriptor_row (release_commitField \<lparr>f_name = n, f_value = v, f_type = Some ''REFERENCE_LIST''\<rparr>)
     = (JStr ''REFERENCE_LIST'', JStr (js_join [CHR 0x0A] (map trim (js_split CHR '','' v))),
        JArr (map JStr (map trim (js_split CHR '','' v))), JNum 0)
   \<and> map descriptor_row (sprint_commitFields name startDate endDate)
     = (if truthy_opt name
        then [(JStr ''SHORT_STRING'', JStr (the name), JArr [JStr (the name)], JNum 254)] else [])
       @ (if truthy_opt startDate
          then [(JStr ''DATE_TIME'', JStr (the startDate @ '' 00:00:00''),
                 JArr [JStr (the startDate @ '' 00:00:00'')], JNum 0)] else [])
       @ (if truthy_opt endDate
          then [(JStr ''DATE_TIME'', JStr (the endDate @ '' 00:00:00''),
                 JArr [JStr (the endDate @ '' 00:00:00'')], JNum 0)] else [])
   \<and> (v \<noteq> [] \<longrightarrow>
        descriptor_row (workitem_commitField \<lparr>f_name = n, f_value = v, f_type = Some ''SHORT_STRING''\<rparr>)
          = (JStr ''SHORT_STRING'', JStr v, JArr [JStr v], JNum 254)
        \<and> descriptor_row (workitem_commitField
                            \<lparr>f_name = n, f_value = v, f_type = Some ''MULTILINE_STRING''\<rparr>)
          = (JStr ''MULTILINE_STRING'', JStr v, JArr [JStr v], JNum 0)
        \<and> decode_descriptor (workitem_commitField
                               \<lparr>f_name = n, f_value = v, f_type = Some ''SHORT_STRING''\<rparr>) = Some v
        \<and> decode_descriptor (workitem_commitField
                               \<lparr>f_name = n, f_value = v, f_type = Some ''MULTILINE_STRING''\<rparr>) = Some v)
   \<and> decode_descriptor (release_commitField \<lparr>f_name = n, f_value = v, f_type = Some ''SHORT_STRING''\<rparr>)
     = Some v
   \<and> decode_descriptor (release_commitField \<lparr>f_name = n, f_value = v, f_type = None\<rparr>) = Some v
   \<and> decode_descriptor (release_commitField
                          \<lparr>f_name = n, f_value = v, f_type = Some ''MULTILINE_STRING''\<rparr>) = Some v
   \<and> map decode_descriptor (sprint_commitFields name startDate endDate)
     = (if truthy_opt name then [name] else [])
       @ (if truthy_opt startDate then [startDate] else [])
       @ (if truthy_opt endDate then [endDate] else [])"
proof -
  have rows: "map descriptor_row (sprint_commitFields name startDate endDate)
     = (if truthy_opt name
        then [(JStr ''SHORT_STRING'', JStr (the name), JArr [JStr (the name)], JNum 254)] else [])
       @ (if truthy_opt startDate
          then [(JStr ''DATE_TIME'', JStr (the startDate @ '' 00:00:00''),
                 JArr [JStr (the startDate @ '' 00:00:00'')], JNum 0)] else [])
       @ (if truthy_opt endDate
          then [(JStr ''DATE_TIME'', JStr (the endDate @ '' 00:00:00''),
                 JArr [JStr (the endDate @ '' 00:00:00'')], JNum 0)] else [])"
    by (simp add: descriptor_row_def sprint_commitFields_def)
  have dec: "map decode_descriptor (sprint_commitFields name startDate endDate)
     = (if truthy_opt name then [name] else [])
       @ (if truthy_opt startDate then [startDate] else [])
       @ (if truthy_opt endDate then [endDate] else [])"
    by (cases name; cases startDate; cases endDate)
       (simp_all add: decode_descriptor_def descriptor_row_def sprint_commitFields_def
          has_time_suffix_append)
  have rel: "descriptor_row (release_commitField \<lparr>f_name = n, f_value = v, f_type = t\<rparr>)
     = (JStr (if truthy_opt t then the t else ''SHORT_STRING''),
        (if t = Some ''REFERENCE_LIST''
         then JStr (js_join [CHR 0x0A] (map trim (js_split CHR '','' v))) else JStr v),
        (if t = Some ''REFERENCE_LIST''
         then JArr (map JStr (map trim (js_split CHR '','' v))) else JArr [JStr v]),
        JNum (if t = Some ''MULTILINE_STRING'' \<or> t = Some ''REFERENCE_LIST'' then 0 else 254))" for t
    by (simp add: descriptor_row_def release_commitField_def type_or_default_def)
  have wi: "v \<noteq> [] \<Longrightarrow>
     descriptor_row (workitem_commitField \<lparr>f_name = n, f_value = v, f_type = t\<rparr>)
     = (JStr (if truthy_opt t then the t else ''SHORT_STRING''), JStr v, JArr [JStr v],
        JNum (if t = Some ''SHORT_STRING'' then 254 else 0))" for t
    by (simp add: descriptor_row_def workitem_commitField_def type_or_default_def)
  show ?thesis
    using rows dec by (simp add: rel wi decode_descriptor_def)
qed

theorem commit_descriptor_table_witness:
  "descriptor_row (workitem_commitField
                     \<lparr>f_name = ''Title'', f_value = ''Fix it'', f_type = Some ''SHORT_STRING''\<rparr>)
     = (JStr ''SHORT_STRING'', JStr ''Fix it'', JArr [JStr ''Fix it''], JNum 254)
   \<and> decode_descriptor (workitem_commitField
                          \<lparr>f_name = ''Title'', f_value = ''Fix it'', f_type = Some ''MULTILINE_STRING''\<rparr>)
     = Some ''Fix it''
   \<and> map decode_descriptor (sprint_commitFields (Some ''S1'') (Some ''2024-01-01'') None)
     = [Some ''S1'', Some ''2024-01-01'']"
  using commit_descriptor_table
    [where n = "''Title''" and v = "''Fix it''" and name = "Some ''S1''"
       and startDate = "Some ''2024-01-01''" and endDate = None]
  by simp

text \<open>
  C1 as stated fails: the Release builder passes a DATE_TIME value on as it is, with
  maxLength 254; the work-item builder gives an unspecified type maxLength 0; and two
  different REFERENCE_LIST inputs have the same descriptor, so that no rule recovers the
  input.
\<close>

theorem commit_descriptor_table_counterexample:
  "descriptor_row (release_commitField
                     \<lparr>f_name = ''StartDate'', f_value = ''2024-01-01'', f_type = Some ''DATE_TIME''\<rparr>)
     = (JStr ''DATE_TIME'', JStr ''2024-01-01'', JArr [JStr ''2024-01-01''], JNum 254)
   \<and> descriptor_row (workitem_commitField \<lparr>f_name = ''Title'', f_value = ''x'', f_type = None\<rparr>)
     = (JStr ''SHORT_STRING'', JStr ''x'', JArr [JStr ''x''], JNum 0)
   \<and> release_commitField
        \<lparr>f_name = ''Sprints'', f_value = ''Sprint1, Sprint2'', f_type = Some ''REFERENCE_LIST''\<rparr>
     = release_commitField
        \<lparr>f_name = ''Sprints'', f_value = ''Sprint1,Sprint2'', f_type = Some ''REFERENCE_LIST''\<rparr>"
  by (simp add: descriptor_row_def release_commitField_def workitem_commitField_def
        type_or_default_def trim_def is_js_whitespace_def)

text \<open>
  C2, as amended. In a Release descriptor, requiredness and requirednessForUser are
  MANDATORY exactly when the field is named \<open>Name\<close>, and OPTIONAL otherwise. In the
  descriptors a Sprint mutation builds (for Name, StartDate and EndDate, in this order)
  both are MANDATORY throughout.
\<close>

theorem requiredness_of_descriptors:
  "(js_prop (release_commitField f) ''requiredness'' = JStr ''MANDATORY'' \<longleftrightarrow> f_name f = ''Name'')
   \<and> (js_prop (release_commitField f) ''requiredness'' = JStr ''OPTIONAL'' \<longleftrightarrow> f_name f \<noteq> ''Name'')
   \<and> js_prop (release_commitField f) ''requirednessForUser''
       = js_prop (release_commitField f) ''requiredness''
   \<and> map (\<lambda>d. js_prop d ''name'') (sprint_commitFields name startDate endDate)
       = (if truthy_opt name then [JStr ''Name''] else [])
         @ (if truthy_opt startDate then [JStr ''StartDate''] else [])
         @ (if truthy_opt endDate then [JStr ''EndDate''] else [])
   \<and> list_all (\<lambda>d. js_prop d ''requiredness'' = JStr ''MANDATORY''
                    \<and> js_prop d ''requirednessForUser'' = JStr ''MANDATORY'')
        (sprint_commitFields name startDate endDate)"
  by (simp add: release_commitField_def sprint_commitFields_def)

theorem requiredness_of_descriptors_witness:
  "js_prop (release_commitField \<lparr>f_name = ''Name'', f_value = ''R1'', f_type = None\<rparr>)
     ''requiredness'' = JStr ''MANDATORY''
   \<and> js_prop (release_commitField \<lparr>f_name = ''Description'', f_value = ''d'', f_type = None\<rparr>)
     ''requiredness'' = JStr ''OPTIONAL''"
  using requiredness_of_descriptors [where f = "\<lparr>f_name = ''Name'', f_value = ''R1'', f_type = None\<rparr>"]
    requiredness_of_descriptors
      [where f = "\<lparr>f_name = ''Description'', f_value = ''d'', f_type = None\<rparr>"]
  by simp

text \<open>C2 as stated fails for a Sprint: the descriptors of StartDate and EndDate are
  MANDATORY, though these fields are not the field Name.\<close>

theorem requiredness_of_descriptors_counterexample:
  "map (\<lambda>d. (js_prop d ''name'', js_prop d ''requiredness'', js_prop d ''requirednessForUser''))
     (sprint_commitFields (Some ''Sprint 1'') (Some ''2024-01-01'') (Some ''2024-01-14''))
   = [(JStr ''Name'', JStr ''MANDATORY'', JStr ''MANDATORY''),
      (JStr ''StartDate'', JStr ''MANDATORY'', JStr ''MANDATORY''),
      (JStr ''EndDate'', JStr ''MANDATORY'', JStr ''MANDATORY'')]"
  by (simp add: sprint_commitFields_def)


section \<open>Running a computation\<close>

lemmas monad_defs = js_bind_def js_return_def js_throw_def js_try_def js_lift_def
  read_globalCookies_def write_globalCookies_def fetch_def delay_def response_json_def

lemma api_fetch_exchange:
  "exchange env w (api_request env (globalCookies w) meth u a b) resp w' \<Longrightarrow>
   api_fetch env meth u a b w = (Inr resp, w')"
  by (simp add: exchange_def api_fetch_def monad_defs)

lemma emits_return [emits_intros]: "emits Q (js_return x)"
  by (simp add: emits_def js_return_def)

lemma emits_throw [emits_intros]: "emits Q (js_throw e)"
  by (simp add: emits_def js_throw_def)

lemma emits_lift [emits_intros]: "emits Q (js_lift r)"
  by (cases r) (simp_all add: js_lift_def emits_intros)

lemma emits_response_json [emits_intros]: "emits Q (response_json r)"
  by (cases "body_json r") (simp_all add: response_json_def emits_intros)

lemma emits_read [emits_intros]: "emits Q read_globalCookies"
  by (simp add: emits_def read_globalCookies_def)

lemma emitsD:
  assumes "emits Q m" and "m w = (r, w1)"
  shows "globalCookies w1 = globalCookies w
         \<and> (\<exists>evs. trace w1 = trace w @ evs \<and> list_all (Q (globalCookies w)) evs)"
proof -
  from assms(1) have "globalCookies (snd (m w)) = globalCookies w
     \<and> (\<exists>evs. trace (snd (m w)) = trace w @ evs \<and> list_all (Q (globalCookies w)) evs)"
    unfolding emits_def by (rule spec)
  then show ?thesis using assms(2) by simp
qed

lemma emits_bind [emits_intros]:
  assumes "emits Q m" and "\<And>x. emits Q (f x)"
  shows "emits Q (js_bind m f)"
  unfolding emits_def
proof (intro allI)
  fix w
  obtain r w1 where mw: "m w = (r, w1)" by (cases "m w")
  from emitsD[OF assms(1) mw] obtain evs1 where
    1: "globalCookies w1 = globalCookies w" "trace w1 = trace w @ evs1"
       "list_all (Q (globalCookies w)) evs1"
    by blast
  show "globalCookies (snd (js_bind m f w)) = globalCookies w \<and>
        (\<exists>evs. trace (snd (js_bind m f w)) = trace w @ evs \<and> list_all (Q (globalCookies w)) evs)"
  proof (cases r)
    case (Inl e)
    then show ?thesis using mw 1 by (simp add: js_bind_def)
  next
    case (Inr x)
    obtain r2 w2 where fw: "f x w1 = (r2, w2)" by (cases "f x w1")
    from emitsD[OF assms(2)[of x] fw] obtain evs2 where
      2: "globalCookies w2 = globalCookies w1" "trace w2 = trace w1 @ evs2"
         "list_all (Q (globalCookies w1)) evs2"
      by blast
    show ?thesis using Inr mw fw 1 2 by (simp add: js_bind_def)
  qed
qed

lemma emits_try [emits_intros]:
  assumes "emits Q m" and "\<And>e. emits Q (h e)"
  shows "emits Q (js_try m h)"
  unfolding emits_def
proof (intro allI)
  fix w
  obtain r w1 where mw: "m w = (r, w1)" by (cases "m w")
  from emitsD[OF assms(1) mw] obtain evs1 where
    1: "globalCookies w1 = globalCookies w" "trace w1 = trace w @ evs1"
       "list_all (Q (globalCookies w)) evs1"
    by blast
  show "globalCookies (snd (js_try m h w)) = globalCookies w \<and>
        (\<exists>evs. trace (snd (js_try m h w)) = trace w @ evs \<and> list_all (Q (globalCookies w)) evs)"
  proof (cases r)
    case (Inr x)
    then show ?thesis using mw 1 by (simp add: js_try_def)
  next
    case (Inl e)
    obtain r2 w2 where fw: "h e w1 = (r2, w2)" by (cases "h e w1")
    from emitsD[OF assms(2)[of e] fw] obtain evs2 where
      2: "globalCookies w2 = globalCookies w1" "trace w2 = trace w1 @ evs2"
         "list_all (Q (globalCookies w1)) evs2"
      by blast
    show ?thesis using Inl mw fw 1 2 by (simp add: js_try_def)
  qed
qed

lemma emits_api_fetch:
  assumes "\<And>g. Q g (Fetch (api_request env g meth u a b))"
  shows "emits Q (api_fetch env meth u a b)"
  using assms
  by (auto simp: emits_def api_fetch_def monad_defs split: sum.splits)

lemma emits_delay [emits_intros]: "(\<And>g. Q g (Delay n)) \<Longrightarrow> emits Q (delay n)"
  by (simp add: emits_def delay_def)

lemma emits_if [emits_intros]:
  "(c \<Longrightarrow> emits Q a) \<Longrightarrow> (\<not> c \<Longrightarrow> emits Q b) \<Longrightarrow> emits Q (if c then a else b)"
  by simp

lemma emits_and_rows [emits_intros]: "emits Q (and_rows d)"
  by (simp add: and_rows_def emits_intros)

lemma emits_api: "api_events Q env \<Longrightarrow> emits Q (api_fetch env meth u a b)"
  by (simp add: api_events_def emits_api_fetch)

lemma emits_run_query:
  "api_events Q env \<Longrightarrow> emits Q (run_query env application payload verbose suffix)"
  unfolding run_query_def
  by (intro emits_intros emits_api) 

lemma emits_case_jsval:
  "(\<And>xs. d = JArr xs \<Longrightarrow> emits Q (f xs)) \<Longrightarrow> (\<not> (\<exists>xs. d = JArr xs) \<Longrightarrow> emits Q g) \<Longrightarrow>
   emits Q (case d of JArr xs \<Rightarrow> f xs | JUndefined \<Rightarrow> g | JNull \<Rightarrow> g | JBool b \<Rightarrow> g
            | JNum n \<Rightarrow> g | JStr s \<Rightarrow> g | JObj ps \<Rightarrow> g)"
  by (cases d) simp_all

lemma yields_return [yields_intros]: "P x \<Longrightarrow> yields P (js_return x)"
  by (simp add: yields_def js_return_def)

lemma yields_throw [yields_intros]: "yields P (js_throw e)"
  by (simp add: yields_def js_throw_def)

lemma yields_bind [yields_intros]: "(\<And>x. yields P (f x)) \<Longrightarrow> yields P (js_bind m f)"
  by (auto simp: yields_def js_bind_def split: prod.splits sum.splits)

lemma yields_if [yields_intros]:
  "(c \<Longrightarrow> yields P a) \<Longrightarrow> (\<not> c \<Longrightarrow> yields P b) \<Longrightarrow> yields P (if c then a else b)"
  by simp

lemma yields_case_jsval:
  "(\<And>xs. d = JArr xs \<Longrightarrow> yields P (f xs)) \<Longrightarrow> (\<not> (\<exists>xs. d = JArr xs) \<Longrightarrow> yields P g) \<Longrightarrow>
   yields P (case d of JArr xs \<Rightarrow> f xs | JUndefined \<Rightarrow> g | JNull \<Rightarrow> g | JBool b \<Rightarrow> g
            | JNum n \<Rightarrow> g | JStr s \<Rightarrow> g | JObj ps \<Rightarrow> g)"
  by (cases d) simp_all

section \<open>The session block\<close>

lemma ensureSession_cached:
  "truthy_opt (globalCookies w) \<Longrightarrow> ensureSession env w = (Inr True, w)"
  by (simp add: ensureSession_def monad_defs)

lemma getCookies_run:
  "getCookiesFromServer env w =
     (Inr (bootstrap_cookie env w),
      w\<lparr>trace := trace w @ [Fetch (bootstrap_request env)],
        globalCookies := (case bootstrap_cookie env w of None \<Rightarrow> globalCookies w | Some c \<Rightarrow> Some c)\<rparr>)"
  by (auto simp: getCookiesFromServer_def bootstrap_cookie_def monad_defs split: sum.splits option.splits)

lemma ensureSession_cold:
  "\<not> truthy_opt (globalCookies w) \<Longrightarrow>
   ensureSession env w =
     (Inr (truthy_opt (bootstrap_cookie env w)),
      w\<lparr>trace := trace w @ [Fetch (bootstrap_request env)], globalCookies := bootstrap_cookie env w\<rparr>)"
  by (auto simp: ensureSession_def getCookies_run monad_defs split: option.splits)

lemma ensureSession_total: "\<exists>b w1. ensureSession env w = (Inr b, w1)"
  by (cases "truthy_opt (globalCookies w)") (auto simp: ensureSession_cached ensureSession_cold)

lemma with_session_run:
  "ensureSession env w = (Inr b, w1) \<Longrightarrow>
   with_session env rest w = (if b then rest w1 else (Inr cookie_error, w1))"
  by (simp add: with_session_def js_bind_def js_return_def)

section \<open>The shape of the tools\<close>

lemma tool_shapeI:
  "emits Q rest \<Longrightarrow> yields P rest \<Longrightarrow> (\<And>e. P (h e)) \<Longrightarrow>
   tool_shape Q P env (js_try (with_session env rest) (\<lambda>e. js_return (h e)))"
  unfolding tool_shape_def by blast

lemma emits_record_patch:
  "api_events Q env \<Longrightarrow> emits Q (record_patch env application entity targetDbid operation payload)"
  unfolding record_patch_def by (intro emits_intros emits_api)

lemma emits_create_empty:
  "api_events Q env \<Longrightarrow> emits Q (create_empty env application entity)"
  unfolding create_empty_def by (intro emits_intros emits_api)

lemma emits_commit_and_report:
  "api_events Q env \<Longrightarrow>
   emits Q (commit_and_report env application entity targetDbid commitFields isCreating)"
  unfolding commit_and_report_def by (intro emits_intros emits_record_patch)

lemma yields_commit_and_report:
  "(\<And>t. P (text_result t)) \<Longrightarrow>
   yields P (commit_and_report env application entity targetDbid commitFields isCreating)"
  unfolding commit_and_report_def by (intro yields_intros)

lemma emits_release_edit_loop:
  "api_events Q env \<Longrightarrow> emits Q (release_edit_loop env application targetDbid fs)"
  by (induction fs) (auto intro!: emits_intros emits_record_patch)

lemma shape_projects:
  "api_events Q env \<Longrightarrow> (\<And>t. P (text_result t)) \<Longrightarrow>
   tool_shape Q P env (get_available_projects env application)"
  unfolding get_available_projects_def
  by (intro tool_shapeI emits_intros emits_run_query yields_intros)

lemma shape_components:
  "api_events Q env \<Longrightarrow> (\<And>t. P (text_result t)) \<Longrightarrow> P JUndefined \<Longrightarrow>
   tool_shape Q P env (get_available_components env application projectId)"
  unfolding get_available_components_def components_steps_def
  by (intro tool_shapeI emits_intros emits_run_query yields_intros)

lemma shape_sprints:
  "api_events Q env \<Longrightarrow> (\<And>t. P (text_result t)) \<Longrightarrow>
   tool_shape Q P env (get_sprints env application)"
  unfolding get_sprints_def
  by (intro tool_shapeI emits_intros emits_run_query yields_intros)

lemma shape_releases:
  "api_events Q env \<Longrightarrow> (\<And>t. P (text_result t)) \<Longrightarrow>
   tool_shape Q P env (get_releases env application)"
  unfolding get_releases_def
  by (intro tool_shapeI emits_intros emits_run_query yields_intros)

lemma shape_sprint:
  "api_events Q env \<Longrightarrow> (\<And>t. P (text_result t)) \<Longrightarrow>
   tool_shape Q P env (create_or_update_sprint env application sprintDbid name startDate endDate)"
  unfolding create_or_update_sprint_def sprint_step1_def sprint_steps23_def
  by (intro tool_shapeI emits_intros emits_record_patch emits_create_empty emits_commit_and_report
        yields_intros yields_commit_and_report)

lemma shape_release:
  "api_events Q env \<Longrightarrow> (\<And>t. P (text_result t)) \<Longrightarrow>
   tool_shape Q P env (create_or_update_release env application releaseDbid fs)"
  unfolding create_or_update_release_def release_step1_def release_steps23_def
  by (intro tool_shapeI emits_intros emits_release_edit_loop emits_create_empty
        emits_commit_and_report yields_intros yields_commit_and_report)

lemma shape_workitem_types:
  "api_events Q env \<Longrightarrow> (\<And>t. P (text_result t)) \<Longrightarrow>
   tool_shape Q P env (get_available_workitem_types env application projectId)"
  unfolding get_available_workitem_types_def
  by (intro tool_shapeI emits_intros emits_run_query yields_intros)

lemma shape_create_work_item:
  "api_events Q env \<Longrightarrow> (\<And>t. P (text_result t)) \<Longrightarrow>
   tool_shape Q P env
     (create_work_item env component title description workItemType application projectId)"
  unfolding create_work_item_def Let_def
  by (intro tool_shapeI emits_intros emits_api yields_intros)

lemma shape_work_items:
  "api_events Q env \<Longrightarrow> (\<And>t. P (text_result t)) \<Longrightarrow>
   tool_shape Q P env (get_work_items env applicationName projectId workitemType owner)"
  unfolding get_work_items_def
  by (intro tool_shapeI emits_intros emits_run_query yields_intros)

lemma shape_delete:
  "api_events Q env \<Longrightarrow> (\<And>t. P (text_result t)) \<Longrightarrow>
   tool_shape Q P env (delete_work_item env dbid application)"
  unfolding delete_work_item_def
  by (intro tool_shapeI emits_intros emits_api yields_intros)

lemma shape_update:
  "api_events Q env \<Longrightarrow> (\<And>t. P (text_result t)) \<Longrightarrow>
   tool_shape Q P env (update_work_item env dbid application fs)"
  unfolding update_work_item_def
  by (intro tool_shapeI emits_intros emits_api yields_intros)

lemma shape_applications:
  "api_events Q env \<Longrightarrow> (\<And>t. P (text_result t)) \<Longrightarrow>
   tool_shape Q P env (get_applications env)"
  unfolding get_applications_def
  by (intro tool_shapeI emits_intros emits_api yields_intros emits_case_jsval yields_case_jsval)

lemma shape_states:
  "api_events Q env \<Longrightarrow> (\<And>t. P (text_result t)) \<Longrightarrow>
   tool_shape Q P env (get_available_states env application)"
  unfolding get_available_states_def
  by (intro tool_shapeI emits_intros emits_api yields_intros)

lemma state_change_error_text: "\<exists>t. state_change_error dbid targetState e = text_result t"
  unfolding state_change_error_def by (rule if_split[THEN iffD2]) blast

lemma shape_change_state:
  assumes "api_events Q env" and "\<And>g. Q g (Delay 1000)" and "\<And>t. P (text_result t)"
  shows "tool_shape Q P env (change_work_item_state env dbid application targetState)"
proof -
  have h: "P (state_change_error dbid targetState e)" for e
    using state_change_error_text[of dbid targetState e] assms(3) by auto
  show ?thesis
    unfolding change_work_item_state_def change_state_steps_def
    by (intro tool_shapeI emits_intros emits_api yields_intros assms h)
qed

lemma shape_call_tool:
  assumes "api_events Q env" and "\<And>g. Q g (Delay 1000)" and "\<And>t. P (text_result t)"
    and "is_components call \<Longrightarrow> P JUndefined"
  shows "tool_shape Q P env (call_tool env call)"
  using assms
  by (cases call)
     (simp_all add: shape_projects shape_components shape_sprints shape_releases shape_sprint
        shape_release shape_workitem_types shape_create_work_item shape_work_items shape_delete
        shape_update shape_applications shape_states shape_change_state)

lemma shape_run:
  assumes "tool_shape Q P env t" and "ensureSession env w = (Inr b, w1)"
  shows "\<exists>r w'. t w = (Inr r, w')
           \<and> (if b then P r \<and> globalCookies w' = globalCookies w1
                        \<and> (\<exists>evs. trace w' = trace w1 @ evs \<and> list_all (Q (globalCookies w1)) evs)
               else r = cookie_error \<and> w' = w1)"
proof -
  from assms(1) obtain rest h where
    t: "t = js_try (with_session env rest) (\<lambda>e. js_return (h e))"
    and e: "emits Q rest" and y: "yields P rest" and p: "\<And>e. P (h e)"
    unfolding tool_shape_def by blast
  show ?thesis
  proof (cases b)
    case False
    then show ?thesis
      using assms(2) by (simp add: t with_session_run js_try_def)
  next
    case True
    obtain res w2 where r: "rest w1 = (res, w2)" by (cases "rest w1")
    from emitsD[OF e r] have tr: "globalCookies w2 = globalCookies w1"
      "\<exists>evs. trace w2 = trace w1 @ evs \<and> list_all (Q (globalCookies w1)) evs" by blast+
    show ?thesis
    proof (cases res)
      case (Inl ex)
      then show ?thesis using True assms(2) r tr p
        by (simp add: t with_session_run js_try_def js_return_def)
    next
      case (Inr x)
      then have "P x" using y r by (auto simp: yields_def)
      then show ?thesis using Inr True assms(2) r tr
        by (simp add: t with_session_run js_try_def)
    qed
  qed
qed

section \<open>Runs against the sample servers\<close>

lemmas run_defs = monad_defs ensureSession_def getCookiesFromServer_def with_session_def
  api_fetch_def api_request_def api_headers_def bootstrap_request_def ok_def
  run_query_def and_rows_def displayNames_def db_url_def databases_url_def
  text_result_def cookie_error_def JSON_stringify_def json_quote_def quote_char_def
  plan_env_def json_response_def initial_world_def

lemma plan_env_simps:
  "network (plan_env net) = net"
  "serverURL (plan_env net) = ''https://plan.example.com''"
  "teamspaceID (plan_env net) = ''ts1''"
  "personal_access_token_string (plan_env net) = ''token''"
  by (simp_all add: plan_env_def)

lemma cached_world:
  "ensureSession (plan_env net) \<lparr>globalCookies = Some ''JSESSIONID=abc'', trace = []\<rparr>
     = (Inr True, \<lparr>globalCookies = Some ''JSESSIONID=abc'', trace = []\<rparr>)"
  by (simp add: ensureSession_cached)

lemma witness_world:
  "ensureSession (plan_env session_server) initial_world
     = (Inr True, \<lparr>globalCookies = Some ''JSESSIONID=abc'',
                   trace = [Fetch (bootstrap_request (plan_env session_server))]\<rparr>)"
  by (simp add: run_defs session_server_def)

section \<open>The results of the tools\<close>

text \<open>
  C3, as amended. No tool raises past its boundary: every invocation returns a result.
  When the session cannot be acquired, the result is the object
  \<open>{ error: "Failed to retrieve cookies." }\<close>, which has no content, and nothing
  else is done. When the session is at hand, every tool other than
  \<open>get_available_components\<close> returns a content of exactly one text item, whatever
  fails afterwards.
\<close>

theorem tool_results:
  "\<exists>b w1 r w'. ensureSession env w = (Inr b, w1) \<and> call_tool env call w = (Inr r, w')
      \<and> (if b then is_components call \<or> (\<exists>t. r = text_result t)
          else r = cookie_error \<and> w' = w1)"
proof -
  obtain b w1 where s: "ensureSession env w = (Inr b, w1)" using ensureSession_total by blast
  have "tool_shape (\<lambda>g ev. True) (\<lambda>r. is_components call \<or> (\<exists>t. r = text_result t)) env
          (call_tool env call)"
    by (rule shape_call_tool) (auto simp: api_events_def)
  from shape_run[OF this s] show ?thesis using s by (cases b) auto
qed

theorem tool_results_witness:
  "\<exists>b ws r w'. ensureSession (plan_env unreachable) initial_world = (Inr b, ws)
      \<and> call_tool (plan_env unreachable) Get_applications initial_world = (Inr r, w')
      \<and> (if b then is_components Get_applications \<or> (\<exists>t. r = text_result t)
          else r = cookie_error \<and> w' = ws)"
  by (rule tool_results)

text \<open>
  C3 as stated fails: when the bootstrap call fails, \<open>get_available_projects\<close> returns an
  object with an \<open>error\<close> property and no content; and \<open>get_available_components\<close>
  returns \<open>undefined\<close> when the page is an object without rows.
\<close>

theorem tool_results_counterexample: "fst (call_tool (plan_env unreachable) (Get_available_projects ''app'') initial_world)
    = Inr (JObj [(''error'', JStr ''Failed to retrieve cookies.'')])
  \<and> js_prop (JObj [(''error'', JStr ''Failed to retrieve cookies.'')]) ''content'' = JUndefined
  \<and> fst (call_tool (plan_env no_rows_server) (Get_available_components ''app'' ''p1'') initial_world)
    = Inr JUndefined"
  by (simp add: get_available_projects_def get_available_components_def components_steps_def
       run_defs unreachable_def no_rows_server_def)

section \<open>Reuse of the session\<close>

lemma api_events_sends_cookie: "api_events (sends_cookie env) env"
  by (simp add: api_events_def api_request_def bootstrap_request_def api_headers_def)

lemma no_bootstrap_among:
  "list_all (sends_cookie env g) evs \<Longrightarrow> filter (\<lambda>ev. ev = Fetch (bootstrap_request env)) evs = []"
  by (induction evs) auto

text \<open>
  C5. Of two consecutive invocations, the first one starting without a session and
  acquiring one: exactly one bootstrap call is issued over both, the second invocation
  leaves the cached cookie as it is, and every request of the second invocation carries
  that cookie.
\<close>

theorem session_reuse:
  assumes "\<not> truthy_opt (globalCookies w)"
    and "call_tool env first_call w = (ra, wa)"
    and "truthy_opt (globalCookies wa)"
    and "call_tool env second_call wa = (rb, wb)"
  shows "length (filter (\<lambda>ev. ev = Fetch (bootstrap_request env)) (events_since w wb)) = 1
         \<and> globalCookies wb = globalCookies wa
         \<and> list_all (sends_cookie env (globalCookies wa)) (events_since wa wb)"
proof -
  let ?Q = "sends_cookie env"
  have sh: "tool_shape ?Q (\<lambda>r. True) env (call_tool env call)" for call
    by (rule shape_call_tool) (simp_all add: api_events_sends_cookie)
  let ?w0 = "w\<lparr>trace := trace w @ [Fetch (bootstrap_request env)],
                globalCookies := bootstrap_cookie env w\<rparr>"
  have s1: "ensureSession env w = (Inr (truthy_opt (bootstrap_cookie env w)), ?w0)"
    using assms(1) by (rule ensureSession_cold)
  have b: "truthy_opt (bootstrap_cookie env w)"
  proof (rule ccontr)
    assume "\<not> truthy_opt (bootstrap_cookie env w)"
    with shape_run[OF sh[of first_call] s1] assms(2) have "wa = ?w0" by auto
    with assms(3) \<open>\<not> truthy_opt (bootstrap_cookie env w)\<close> show False by simp
  qed
  from shape_run[OF sh[of first_call] s1] assms(2) b obtain evs1 where
    1: "globalCookies wa = globalCookies ?w0" "trace wa = trace ?w0 @ evs1"
       "list_all (?Q (globalCookies ?w0)) evs1"
    by auto
  have s2: "ensureSession env wa = (Inr True, wa)"
    using assms(3) by (rule ensureSession_cached)
  from shape_run[OF sh[of second_call] s2] assms(4) obtain evs2 where
    2: "globalCookies wb = globalCookies wa" "trace wb = trace wa @ evs2"
       "list_all (?Q (globalCookies wa)) evs2"
    by auto
  have "events_since w wb = Fetch (bootstrap_request env) # evs1 @ evs2"
    using 1 2 by (simp add: events_since_def)
  moreover have "events_since wa wb = evs2" using 2 by (simp add: events_since_def)
  ultimately show ?thesis
    using 1 2 no_bootstrap_among[of env _ evs1] no_bootstrap_among[of env _ evs2] by simp
qed

theorem session_reuse_witness:
  "length (filter (\<lambda>ev. ev = Fetch (bootstrap_request (plan_env empty_server)))
       (events_since initial_world
          (snd (call_tool (plan_env empty_server) (Delete_work_item ''42'' ''app'')
             (snd (call_tool (plan_env empty_server) Get_applications initial_world)))))) = 1
   \<and> globalCookies
        (snd (call_tool (plan_env empty_server) (Delete_work_item ''42'' ''app'')
           (snd (call_tool (plan_env empty_server) Get_applications initial_world))))
     = Some ''JSESSIONID=abc''"
proof -
  have c: "globalCookies (snd (call_tool (plan_env empty_server) Get_applications initial_world))
             = Some ''JSESSIONID=abc''"
    by (simp add: get_applications_def run_defs empty_server_def)
  show ?thesis
    using session_reuse
      [where env = "plan_env empty_server" and w = initial_world
         and first_call = Get_applications and second_call = "Delete_work_item ''42'' ''app''"
         and ra = "fst (call_tool (plan_env empty_server) Get_applications initial_world)"
         and wa = "snd (call_tool (plan_env empty_server) Get_applications initial_world)"
         and rb = "fst (call_tool (plan_env empty_server) (Delete_work_item ''42'' ''app'')
                    (snd (call_tool (plan_env empty_server) Get_applications initial_world)))"
         and wb = "snd (call_tool (plan_env empty_server) (Delete_work_item ''42'' ''app'')
                    (snd (call_tool (plan_env empty_server) Get_applications initial_world)))"]
      c
    by (simp add: initial_world_def)
qed

section \<open>The calls of a state change\<close>

lemma change_state_steps_normal:
  assumes "change_state_steps env dbid application targetState w1 = (Inr r, w')"
  shows "r = state_changed dbid targetState
         \<and> (\<exists>dbId. trace w' = trace w1
               @ state_change_requests env (globalCookies w1) dbid application targetState dbId)"
  using assms
  unfolding change_state_steps_def api_fetch_def state_change_requests_def state_changed_def
  by (auto simp: monad_defs split: sum.splits if_splits)

lemma text_result_inject: "text_result a = text_result b \<longleftrightarrow> a = b"
  by (simp add: text_result_def)

lemma state_change_error_not_success:
  "state_change_error dbid targetState e \<noteq> state_changed dbid' targetState'"
  by (simp add: state_change_error_def state_changed_def text_result_inject)

lemma cookie_error_not_text: "cookie_error \<noteq> text_result t"
  by (simp add: cookie_error_def text_result_def)

text \<open>
  C4, as amended. An invocation of \<open>change_work_item_state\<close> that returns its success
  text has acquired the session, with one bootstrap call if no cookie was cached and
  with none otherwise, and has then issued exactly these events, in this order: the GET
  of the work item, the PATCH with the action name and the body \<open>{}\<close>, the delay of
  1000 milliseconds, and the PATCH with \<open>operation=Commit\<close> whose body has an empty
  \<open>fields\<close> list.
\<close>

theorem state_change_calls:
  assumes "change_work_item_state env dbid application targetState w
             = (Inr (state_changed dbid targetState), w')"
  shows "\<exists>w1 dbId. ensureSession env w = (Inr True, w1)
           \<and> events_since w w1
               = (if truthy_opt (globalCookies w) then [] else [Fetch (bootstrap_request env)])
           \<and> events_since w1 w'
               = state_change_requests env (globalCookies w1) dbid application targetState dbId"
proof -
  obtain b w1 where s: "ensureSession env w = (Inr b, w1)" using ensureSession_total by blast
  have b: b
  proof (rule ccontr)
    assume "\<not> b"
    then show False using assms s
      by (simp add: change_work_item_state_def with_session_run js_try_def state_changed_def
            cookie_error_not_text)
  qed
  obtain res w2 where r: "change_state_steps env dbid application targetState w1 = (res, w2)"
    by (cases "change_state_steps env dbid application targetState w1")
  have "\<exists>x. res = Inr x"
  proof (cases res)
    case (Inl e)
    then show ?thesis using assms s b r
      by (simp add: change_work_item_state_def with_session_run js_try_def js_return_def
            state_change_error_not_success)
  qed simp
  then obtain x where x: "res = Inr x" ..
  with assms s b r have w2: "w2 = w'"
    by (simp add: change_work_item_state_def with_session_run js_try_def)
  from change_state_steps_normal[OF r[unfolded x]] obtain dbId where
    tr: "trace w2 = trace w1
           @ state_change_requests env (globalCookies w1) dbid application targetState dbId"
    by blast
  have ev: "events_since w w1
              = (if truthy_opt (globalCookies w) then [] else [Fetch (bootstrap_request env)])"
  proof (cases "truthy_opt (globalCookies w)")
    case True
    then show ?thesis using s by (simp add: ensureSession_cached events_since_def)
  next
    case False
    then show ?thesis using s by (auto simp: ensureSession_cold events_since_def)
  qed
  show ?thesis using s b ev tr w2 by (auto simp: events_since_def)
qed

theorem state_change_calls_witness:
  "\<exists>ws dbId. ensureSession (plan_env empty_server) initial_world = (Inr True, ws)
      \<and> events_since initial_world ws = [Fetch (bootstrap_request (plan_env empty_server))]
      \<and> events_since ws
           (snd (change_work_item_state (plan_env empty_server) ''42'' ''app'' ''Resolve''
                   initial_world))
         = state_change_requests (plan_env empty_server) (globalCookies ws) ''42'' ''app''
             ''Resolve'' dbId"
proof -
  have "fst (change_work_item_state (plan_env empty_server) ''42'' ''app'' ''Resolve'' initial_world)
          = Inr (state_changed ''42'' ''Resolve'')"
    by (simp add: change_work_item_state_def change_state_steps_def run_defs empty_server_def
          state_changed_def)
  then have "change_work_item_state (plan_env empty_server) ''42'' ''app'' ''Resolve'' initial_world
      = (Inr (state_changed ''42'' ''Resolve''),
         snd (change_work_item_state (plan_env empty_server) ''42'' ''app'' ''Resolve''
                initial_world))"
    by (metis prod.collapse)
  from state_change_calls[OF this] show ?thesis by (simp add: initial_world_def)
qed

text \<open>
  C4 as stated fails: a successful invocation in a process without a cached cookie issues
  four HTTP calls, the bootstrap call first.
\<close>

theorem state_change_calls_counterexample:
  "fst (change_work_item_state (plan_env empty_server) ''42'' ''app'' ''Resolve'' initial_world)
     = Inr (state_changed ''42'' ''Resolve'')
   \<and> length (filter is_fetch (trace (snd
        (change_work_item_state (plan_env empty_server) ''42'' ''app'' ''Resolve'' initial_world)))) = 4"
  by (simp add: change_work_item_state_def change_state_steps_def run_defs empty_server_def
        state_changed_def)

section \<open>The create step of sprints and releases\<close>

lemma create_empty_run:
  "\<exists>res. create_empty env application entity w
      = (res, w\<lparr>trace := trace w @ [Fetch (create_request env (globalCookies w) application entity)]\<rparr>)
     \<and> created_dbid env w application entity
       = (case res of Inl e \<Rightarrow> None
          | Inr x \<Rightarrow> (case to_String x of Inl e \<Rightarrow> None | Inr dbid \<Rightarrow> Some dbid))"
  by (auto simp: create_empty_def create_request_def created_dbid_def api_fetch_def monad_defs
           split: sum.splits)

lemma list_all_False: "list_all (\<lambda>ev. False) evs = (evs = [])"
  by (cases evs) simp_all

lemma patch_record_patch:
  assumes "to_String targetDbid = Inr dbid" and "operation = ''Edit'' \<or> operation = ''Commit''"
  shows "emits (\<lambda>g. is_edit_or_commit env g application entity dbid)
           (record_patch env application entity targetDbid operation payload)"
proof -
  have "record_patch env application entity targetDbid operation payload
          = api_fetch env ''PATCH'' (record_url env application entity dbid operation)
              None (Some (JSON_stringify payload))"
    using assms(1)
    by (simp add: record_patch_def record_url_def js_lift_def js_bind_def js_return_def)
  then show ?thesis
    using assms(2) by (auto intro!: emits_api_fetch simp: api_request_def)
qed

lemma record_patch_throws:
  "to_String targetDbid = Inl e \<Longrightarrow>
   record_patch env application entity targetDbid operation payload = js_throw e"
  by (simp add: record_patch_def js_lift_def js_bind_def js_throw_def)

lemma js_bind_throw: "js_bind (js_throw e) f = js_throw e"
  by (simp add: js_bind_def js_throw_def)

lemma patch_commit_and_report:
  "to_String targetDbid = Inr dbid \<Longrightarrow>
   emits (\<lambda>g. is_edit_or_commit env g application entity dbid)
     (commit_and_report env application entity targetDbid commitFields isCreating)"
  unfolding commit_and_report_def by (intro emits_intros patch_record_patch) simp_all

lemma patch_release_edit_loop:
  "to_String targetDbid = Inr dbid \<Longrightarrow>
   emits (\<lambda>g. is_edit_or_commit env g application ''Release'' dbid)
     (release_edit_loop env application targetDbid fs)"
  by (induction fs) (auto intro!: emits_intros patch_record_patch)

lemma patch_sprint_steps23:
  "to_String targetDbid = Inr dbid \<Longrightarrow>
   emits (\<lambda>g. is_edit_or_commit env g application ''Sprint'' dbid)
     (sprint_steps23 env application targetDbid name startDate endDate c)"
  unfolding sprint_steps23_def
  by (intro emits_intros patch_record_patch patch_commit_and_report) simp_all

lemma patch_release_steps23:
  "to_String targetDbid = Inr dbid \<Longrightarrow>
   emits (\<lambda>g. is_edit_or_commit env g application ''Release'' dbid)
     (release_steps23 env application targetDbid fs c)"
  unfolding release_steps23_def
  by (intro emits_intros patch_release_edit_loop patch_commit_and_report) simp_all

lemma silent_sprint_steps23:
  "to_String targetDbid = Inl e \<Longrightarrow>
   emits (\<lambda>g ev. False) (sprint_steps23 env application targetDbid name startDate endDate c)"
  by (simp add: sprint_steps23_def record_patch_throws js_bind_throw emits_throw)

lemma js_bind_return: "js_bind (js_return x) f = f x"
  by (simp add: js_bind_def js_return_def)

lemma silent_release_steps23:
  assumes "to_String targetDbid = Inl e"
  shows "emits (\<lambda>g ev. False) (release_steps23 env application targetDbid fs c)"
proof -
  have "commit_and_report env application ''Release'' targetDbid cf c = js_throw e" for cf
    using assms by (simp add: commit_and_report_def record_patch_throws js_bind_throw)
  moreover have "fs \<noteq> [] \<Longrightarrow> release_edit_loop env application targetDbid fs = js_throw e"
    using assms by (cases fs) (simp_all add: record_patch_throws js_bind_throw)
  ultimately have "release_steps23 env application targetDbid fs c = js_throw e"
    by (cases fs) (simp_all add: release_steps23_def js_bind_throw js_bind_return)
  then show ?thesis by (simp add: emits_throw)
qed

lemma create_then_patches:
  assumes s: "ensureSession env w = (Inr True, w1)"
    and e: "\<And>x dbid. to_String x = Inr dbid \<Longrightarrow>
              emits (\<lambda>g. is_edit_or_commit env g application entity dbid) (rest x)"
    and n: "\<And>x ex. to_String x = Inl ex \<Longrightarrow> emits (\<lambda>g ev. False) (rest x)"
  shows "\<exists>evs. events_since w1
            (snd (js_try (with_session env (js_bind (create_empty env application entity) rest))
                    (\<lambda>e. js_return (h e)) w))
          = Fetch (create_request env (globalCookies w1) application entity) # evs
          \<and> edits_and_commits env w1 application entity evs"
proof -
  let ?w2 = "w1\<lparr>trace := trace w1
                @ [Fetch (create_request env (globalCookies w1) application entity)]\<rparr>"
  obtain res where c: "create_empty env application entity w1 = (res, ?w2)"
    and d: "created_dbid env w1 application entity
       = (case res of Inl e \<Rightarrow> None
          | Inr x \<Rightarrow> (case to_String x of Inl e \<Rightarrow> None | Inr dbid \<Rightarrow> Some dbid))"
    using create_empty_run by blast
  show ?thesis
  proof (cases res)
    case (Inl ex)
    then show ?thesis using s c d
      by (simp add: with_session_run js_try_def js_bind_def js_return_def events_since_def
            edits_and_commits_def)
  next
    case (Inr x)
    obtain res2 w3 where r: "rest x ?w2 = (res2, w3)" by (cases "rest x ?w2")
    show ?thesis
    proof (cases "to_String x")
      case (Inl ex)
      from emitsD[OF n[OF Inl] r] have tr: "trace w3 = trace ?w2"
        by (auto simp: list_all_False)
      show ?thesis using Inr Inl s c d r tr
        by (cases res2)
           (simp_all add: with_session_run js_try_def js_bind_def js_return_def events_since_def
              edits_and_commits_def)
    next
      case (Inr dbid)
      from emitsD[OF e[OF Inr] r] obtain evs where
        tr: "trace w3 = trace ?w2 @ evs"
            "list_all (is_edit_or_commit env (globalCookies w1) application entity dbid) evs"
        by auto
      show ?thesis using \<open>res = Inr x\<close> Inr s c d r tr
        by (cases res2)
           (simp_all add: with_session_run js_try_def js_bind_def js_return_def events_since_def
              edits_and_commits_def)
    qed
  qed
qed

lemma no_create:
  assumes "ensureSession env w = (Inr b, w1)" and "b \<Longrightarrow> step1 = js_throw ex"
  shows "events_since w1
           (snd (js_try (with_session env (js_bind step1 rest)) (\<lambda>e. js_return (h e)) w)) = []"
  using assms
  by (cases b)
     (simp_all add: with_session_run js_try_def js_bind_def js_return_def js_throw_def
        events_since_def)




section \<open>Components\<close>

lemma run_query_ok:
  assumes "exchange env w (api_request env (globalCookies w) ''POST'' (db_url env application @ ''/query'')
              None (Some (JSON_stringify payload))) queryResponse w2"
    and "body_json queryResponse = Inr queryData"
    and "js_get queryData ''result_set_id'' = Inr resultSetId" and "truthy resultSetId"
    and "to_String resultSetId = Inr rsid"
    and "exchange env w2 (api_request env (globalCookies w) ''GET''
              (db_url env application @ ''/query/'' @ rsid @ suffix) None None) pageResponse w3"
    and "body_json pageResponse = Inr page"
  shows "run_query env application payload verbose suffix w = (Inr page, w3)"
  using assms
  by (simp add: run_query_def exchange_def api_fetch_def monad_defs)

text \<open>
  C7. When the session is at hand, the query is answered with a result set id, and the
  page is an object whose \<open>rows\<close> is the empty array, \<open>get_available_components\<close>
  returns the text \<open>Components retrieved: []\<close>.
\<close>

theorem components_empty_rows:
  assumes "ensureSession env w = (Inr True, ws)"
    and "exchange env ws
           (api_request env (globalCookies ws) ''POST'' (db_url env application @ ''/query'') None
              (Some (JSON_stringify components_payload))) queryResponse wq"
    and "body_json queryResponse = Inr queryData"
    and "js_get queryData ''result_set_id'' = Inr resultSetId" and "truthy resultSetId"
    and "to_String resultSetId = Inr rsid"
    and "exchange env wq
           (api_request env (globalCookies ws) ''GET'' (db_url env application @ ''/query/'' @ rsid)
              None None) pageResponse wp"
    and "body_json pageResponse = Inr componentsData"
    and "js_get componentsData ''rows'' = Inr (JArr [])"
  shows "get_available_components env application projectId w
           = (Inr (text_result ''Components retrieved: []''), wp)"
proof -
  have q: "run_query env application components_payload False [] ws = (Inr componentsData, wp)"
    by (rule run_query_ok[OF assms(2-6) _ assms(8)]) (use assms(7) in simp)
  have t: "truthy componentsData"
    using assms(9) by (cases componentsData) (simp_all split: if_splits)
  have "components_steps env application ws = (Inr (text_result ''Components retrieved: []''), wp)"
    using assms(9) t q
    by (simp add: components_steps_def components_payload_def and_rows_def displayNames_def
          JSON_stringify_def monad_defs)
  then show ?thesis
    using assms(1) by (simp add: get_available_components_def with_session_run js_try_def)
qed

theorem components_empty_rows_witness:
  "get_available_components (plan_env session_server) ''app'' ''p1'' initial_world
     = (Inr (text_result ''Components retrieved: []''),
        \<lparr>globalCookies = Some ''JSESSIONID=abc'',
         trace = [Fetch (bootstrap_request (plan_env session_server)),
                  Fetch (api_request (plan_env session_server) (Some ''JSESSIONID=abc'') ''POST''
                           (db_url (plan_env session_server) ''app'' @ ''/query'') None
                           (Some (JSON_stringify components_payload))),
                  Fetch (api_request (plan_env session_server) (Some ''JSESSIONID=abc'') ''GET''
                           (db_url (plan_env session_server) ''app'' @ ''/query/rs1'') None None)]\<rparr>)"
  by (rule components_empty_rows
        [where queryResponse = "json_response 200 (JObj [(''result_set_id'', JStr ''rs1'')])"
           and pageResponse = "json_response 200 (JObj [(''rows'', JArr [])])"
           and queryData = "JObj [(''result_set_id'', JStr ''rs1'')]"
           and resultSetId = "JStr ''rs1''" and rsid = "''rs1''"
           and componentsData = "JObj [(''rows'', JArr [])]"
           and ws = "\<lparr>globalCookies = Some ''JSESSIONID=abc'',
                       trace = [Fetch (bootstrap_request (plan_env session_server))]\<rparr>"
           and wq = "\<lparr>globalCookies = Some ''JSESSIONID=abc'',
                       trace = [Fetch (bootstrap_request (plan_env session_server)),
                         Fetch (api_request (plan_env session_server) (Some ''JSESSIONID=abc'') ''POST''
                           (db_url (plan_env session_server) ''app'' @ ''/query'') None
                           (Some (JSON_stringify components_payload)))]\<rparr>"])
     (simp_all add: witness_world exchange_def session_server_def plan_env_simps json_response_def
        api_request_def)

text \<open>
  C10, as amended. When the session is at hand and a step of
  \<open>get_available_components\<close> throws, the tool returns the text
  \<open>Components retrieved: "[]"\<close>; so it does when \<open>fetch\<close> fails on the query and
  when the answer to the query has no result set id. When the session cannot be
  acquired, nothing throws and the tool returns
  \<open>{ error: "Failed to retrieve cookies." }\<close>.
\<close>

theorem components_failure_text:
  "(ensureSession env w = (Inr True, ws) \<and> components_steps env application ws = (Inl e, wt) \<longrightarrow>
      get_available_components env application projectId w = (Inr components_failure, wt))
   \<and> (ensureSession env w = (Inr False, ws) \<longrightarrow>
      get_available_components env application projectId w = (Inr cookie_error, ws))
   \<and> (ensureSession env w = (Inr True, ws)
        \<and> network env (trace ws)
             (api_request env (globalCookies ws) ''POST'' (db_url env application @ ''/query'') None
                (Some (JSON_stringify components_payload))) = Inl msg \<longrightarrow>
      fst (get_available_components env application projectId w) = Inr components_failure)
   \<and> (ensureSession env w = (Inr True, ws)
        \<and> exchange env ws
             (api_request env (globalCookies ws) ''POST'' (db_url env application @ ''/query'') None
                (Some (JSON_stringify components_payload))) queryResponse wq
        \<and> body_json queryResponse = Inr queryData
        \<and> js_get queryData ''result_set_id'' = Inr resultSetId \<and> \<not> truthy resultSetId \<longrightarrow>
      get_available_components env application projectId w = (Inr components_failure, wq))"
proof -
  have fail: "get_available_components env application projectId w = (Inr components_failure, wt)"
    if "ensureSession env w = (Inr True, ws)"
      and "components_steps env application ws = (Inl e, wt)" for e wt
    using that(2)
    by (simp add: get_available_components_def with_session_run[OF that(1)] js_try_def
          js_return_def components_failure_def JSON_stringify_def json_quote_def quote_char_def)
  have nosession: "get_available_components env application projectId w = (Inr cookie_error, ws)"
    if "ensureSession env w = (Inr False, ws)"
    by (simp add: get_available_components_def with_session_run[OF that] js_try_def)
  have neterr: "fst (get_available_components env application projectId w) = Inr components_failure"
    if s: "ensureSession env w = (Inr True, ws)"
      and n: "network env (trace ws)
             (api_request env (globalCookies ws) ''POST'' (db_url env application @ ''/query'') None
                (Some (JSON_stringify components_payload))) = Inl msg"
  proof -
    have "\<exists>wt. components_steps env application ws = (Inl (Error msg), wt)"
      using n
      by (simp add: components_steps_def components_payload_def run_query_def api_fetch_def
            monad_defs)
    then show ?thesis using fail[OF s] by auto
  qed
  have noid: "get_available_components env application projectId w = (Inr components_failure, wq)"
    if s: "ensureSession env w = (Inr True, ws)"
      and x: "exchange env ws
             (api_request env (globalCookies ws) ''POST'' (db_url env application @ ''/query'') None
                (Some (JSON_stringify components_payload))) queryResponse wq"
      and j: "body_json queryResponse = Inr queryData"
      and i: "js_get queryData ''result_set_id'' = Inr resultSetId" "\<not> truthy resultSetId"
  proof -
    have "components_steps env application ws
            = (Inl (Error ''Failed to retrieve result set ID''), wq)"
      using x j i
      by (simp add: components_steps_def components_payload_def run_query_def api_fetch_def
            exchange_def monad_defs)
    then show ?thesis by (rule fail[OF s])
  qed
  show ?thesis using fail nosession neterr noid by blast
qed

theorem components_failure_text_witness:
  "fst (get_available_components (plan_env empty_server) ''app'' ''p1'' initial_world)
     = Inr (text_result ''Components retrieved: \"[]\"'')"
proof -
  have s: "ensureSession (plan_env empty_server) initial_world
     = (Inr True, \<lparr>globalCookies = Some ''JSESSIONID=abc'',
                   trace = [Fetch (bootstrap_request (plan_env empty_server))]\<rparr>)"
    by (simp add: run_defs empty_server_def)
  have "get_available_components (plan_env empty_server) ''app'' ''p1'' initial_world
     = (Inr components_failure,
        \<lparr>globalCookies = Some ''JSESSIONID=abc'',
         trace = [Fetch (bootstrap_request (plan_env empty_server)),
                  Fetch (api_request (plan_env empty_server) (Some ''JSESSIONID=abc'') ''POST''
                           (db_url (plan_env empty_server) ''app'' @ ''/query'') None
                           (Some (JSON_stringify components_payload)))]\<rparr>)"
    using components_failure_text
      [where env = "plan_env empty_server" and w = initial_world and application = "''app''"
         and projectId = "''p1''"
         and ws = "\<lparr>globalCookies = Some ''JSESSIONID=abc'',
                     trace = [Fetch (bootstrap_request (plan_env empty_server))]\<rparr>"
         and queryResponse = "json_response 200 (JObj [])" and queryData = "JObj []"
         and resultSetId = JUndefined
         and wq = "\<lparr>globalCookies = Some ''JSESSIONID=abc'',
         trace = [Fetch (bootstrap_request (plan_env empty_server)),
                  Fetch (api_request (plan_env empty_server) (Some ''JSESSIONID=abc'') ''POST''
                           (db_url (plan_env empty_server) ''app'' @ ''/query'') None
                           (Some (JSON_stringify components_payload)))]\<rparr>"]
    by (simp add: s exchange_def empty_server_def plan_env_simps json_response_def)
  then show ?thesis by (simp add: components_failure_def)
qed

text \<open>
  C10 as stated fails for a session failure: the tool returns the error object, not the
  text.
\<close>

theorem components_failure_text_counterexample:
  "fst (get_available_components (plan_env unreachable) ''app'' ''p1'' initial_world)
     = Inr (JObj [(''error'', JStr ''Failed to retrieve cookies.'')])
   \<and> JObj [(''error'', JStr ''Failed to retrieve cookies.'')]
     \<noteq> text_result ''Components retrieved: \"[]\"''"
  by (simp add: get_available_components_def run_defs unreachable_def)

section \<open>Invalid state transitions\<close>

lemma starts_with_Nil: "starts_with s []"
  by (cases s) simp_all

lemma starts_with_append: "starts_with (p @ s) p"
  by (induction p) (simp_all add: starts_with_Nil)

lemma js_includes_prefix: "js_includes (s @ b) s"
proof (cases "s @ b")
  case Nil
  then show ?thesis by simp
next
  case (Cons x xs)
  have "starts_with (s @ b) s" by (rule starts_with_append)
  then show ?thesis unfolding Cons by simp
qed

lemma js_includes_mid: "js_includes (a @ s @ b) s"
  by (induction a) (simp_all add: js_includes_prefix)

lemma includes_status_400 [simp]:
  "js_includes (''Movement request failed with status 400: '' @ t) ''status 400''"
  "js_includes (''Commit request failed with status 400: '' @ t) ''status 400''"
  by simp_all

lemma includes_status_422 [simp]:
  "js_includes (''Movement request failed with status 422: '' @ t) ''status 422''"
  "js_includes (''Commit request failed with status 422: '' @ t) ''status 422''"
  by simp_all

lemma show_nat_400: "show_nat 400 = ''400''" by simp

lemma show_nat_422: "show_nat 422 = ''422''" by simp

lemma transition_error:
  "js_includes m ''status 400'' \<or> js_includes m ''status 422'' \<Longrightarrow>
   state_change_error dbid targetState (Error m)
     = text_result (transition_error_text dbid targetState m)"
  by (simp add: state_change_error_def transition_error_text_def)

text \<open>
  C8. When the session is at hand and the GET of the work item succeeds: if the action
  PATCH is answered with status 400 or 422, or if it succeeds and the Commit PATCH is
  answered with status 400 or 422, then \<open>change_work_item_state\<close> returns the
  invalid-transition message. This message holds the dbid and the target state, and is
  not the generic message \<open>Error changing work item state: ...\<close>.
\<close>

theorem invalid_transition_message:
  assumes s: "ensureSession env w = (Inr True, ws)"
    and g: "exchange env ws
              (api_request env (globalCookies ws) ''GET''
                 (db_url env application @ ''/records/WorkItem/'' @ dbid @ ''?useDbid=true'')
                 None None) getCurrentResponse wg"
           "ok getCurrentResponse" "body_json getCurrentResponse = Inr currentWorkItem"
    and m: "exchange env wg
              (api_request env (globalCookies ws) ''PATCH''
                 (db_url env application @ ''/records/WorkItem/'' @ dbid @ ''?actionName=''
                    @ targetState @ ''&operation=Edit&useDbid=true'') None (Some ''{}''))
              movementResponse wm"
  shows "(status movementResponse = 400 \<or> status movementResponse = 422 \<longrightarrow>
            change_work_item_state env dbid application targetState w
              = (Inr (text_result (transition_error_text dbid targetState
                   (''Movement request failed with status '' @ show_nat (status movementResponse)
                    @ '': '' @ body_text movementResponse))), wm))
       \<and> (ok movementResponse \<and> body_json movementResponse = Inr movementData
            \<and> js_get movementData ''dbId'' = Inr dbId
            \<and> exchange env (wm\<lparr>trace := trace wm @ [Delay 1000]\<rparr>)
                 (api_request env (globalCookies ws) ''PATCH''
                    (db_url env application @ ''/records/WorkItem/'' @ dbid
                       @ ''?operation=Commit&useDbid=true'')
                    None (Some (JSON_stringify (JObj [(''dbId'', dbId), (''fields'', JArr [])]))))
                 commitResponse wc
            \<and> (status commitResponse = 400 \<or> status commitResponse = 422) \<longrightarrow>
            change_work_item_state env dbid application targetState w
              = (Inr (text_result (transition_error_text dbid targetState
                   (''Commit request failed with status '' @ show_nat (status commitResponse)
                    @ '': '' @ body_text commitResponse))), wc))
       \<and> js_includes (transition_error_text dbid targetState msg) dbid
       \<and> js_includes (transition_error_text dbid targetState msg) targetState
       \<and> text_result (transition_error_text dbid targetState msg)
           \<noteq> text_result (''Error changing work item state: '' @ msg')"
proof -
  have c1: "globalCookies wg = globalCookies ws" "globalCookies wm = globalCookies ws"
    using g(1) m by (simp_all add: exchange_def)
  have f1: "api_fetch env ''GET''
              (db_url env application @ ''/records/WorkItem/'' @ dbid @ ''?useDbid=true'')
              None None ws = (Inr getCurrentResponse, wg)"
    using g(1) by (rule api_fetch_exchange)
  have f2: "api_fetch env ''PATCH''
              (db_url env application @ ''/records/WorkItem/'' @ dbid @ ''?actionName=''
                 @ targetState @ ''&operation=Edit&useDbid=true'') None (Some ''{}'') wg
            = (Inr movementResponse, wm)"
    using m c1 by (intro api_fetch_exchange) simp
  have movement: "change_work_item_state env dbid application targetState w
              = (Inr (text_result (transition_error_text dbid targetState
                   (''Movement request failed with status '' @ show_nat (status movementResponse)
                    @ '': '' @ body_text movementResponse))), wm)"
    if st: "status movementResponse = 400 \<or> status movementResponse = 422"
  proof -
    have nok: "\<not> ok movementResponse" using st by (auto simp: ok_def)
    have steps: "change_state_steps env dbid application targetState ws
            = (Inl (Error (''Movement request failed with status ''
                 @ show_nat (status movementResponse) @ '': '' @ body_text movementResponse)), wm)"
      using f1 f2 g(2,3) nok
      by (simp add: change_state_steps_def js_bind_def js_throw_def js_return_def response_json_def)
    have inc: "js_includes (''Movement request failed with status ''
                 @ show_nat (status movementResponse) @ '': '' @ body_text movementResponse) ''status 400''
             \<or> js_includes (''Movement request failed with status ''
                 @ show_nat (status movementResponse) @ '': '' @ body_text movementResponse) ''status 422''"
      using st by (auto simp del: show_nat.simps simp add: show_nat_400 show_nat_422)
    show ?thesis
      using s steps transition_error[OF inc]
      by (simp add: change_work_item_state_def with_session_run js_try_def js_return_def)
  qed
  have commit: "change_work_item_state env dbid application targetState w
              = (Inr (text_result (transition_error_text dbid targetState
                   (''Commit request failed with status '' @ show_nat (status commitResponse)
                    @ '': '' @ body_text commitResponse))), wc)"
    if okm: "ok movementResponse" and mj: "body_json movementResponse = Inr movementData"
      and d: "js_get movementData ''dbId'' = Inr dbId"
      and c: "exchange env (wm\<lparr>trace := trace wm @ [Delay 1000]\<rparr>)
                 (api_request env (globalCookies ws) ''PATCH''
                    (db_url env application @ ''/records/WorkItem/'' @ dbid
                       @ ''?operation=Commit&useDbid=true'')
                    None (Some (JSON_stringify (JObj [(''dbId'', dbId), (''fields'', JArr [])]))))
                 commitResponse wc"
      and st: "status commitResponse = 400 \<or> status commitResponse = 422"
  proof -
    have nok: "\<not> ok commitResponse" using st by (auto simp: ok_def)
    have f3: "api_fetch env ''PATCH''
                (db_url env application @ ''/records/WorkItem/'' @ dbid
                   @ ''?operation=Commit&useDbid=true'')
                None (Some (JSON_stringify (JObj [(''dbId'', dbId), (''fields'', JArr [])])))
                (wm\<lparr>trace := trace wm @ [Delay 1000]\<rparr>) = (Inr commitResponse, wc)"
      using c c1 by (intro api_fetch_exchange) simp
    have steps: "change_state_steps env dbid application targetState ws
            = (Inl (Error (''Commit request failed with status ''
                 @ show_nat (status commitResponse) @ '': '' @ body_text commitResponse)), wc)"
      using f1 f2 f3 g(2,3) okm mj d nok
      by (simp add: change_state_steps_def js_bind_def js_throw_def js_return_def
            response_json_def delay_def js_lift_def)
    have inc: "js_includes (''Commit request failed with status ''
                 @ show_nat (status commitResponse) @ '': '' @ body_text commitResponse) ''status 400''
             \<or> js_includes (''Commit request failed with status ''
                 @ show_nat (status commitResponse) @ '': '' @ body_text commitResponse) ''status 422''"
      using st by (auto simp del: show_nat.simps simp add: show_nat_400 show_nat_422)
    show ?thesis
      using s steps transition_error[OF inc]
      by (simp add: change_work_item_state_def with_session_run js_try_def js_return_def)
  qed
  have i1: "js_includes (transition_error_text dbid targetState msg) dbid"
    unfolding transition_error_text_def
    using js_includes_mid[of "''State transition error: The transition from current state to ''
             @ [CHR 0x27] @ targetState @ [CHR 0x27] @ '' may not be valid for work item ''"
             dbid "''. Error: '' @ msg"]
    by simp
  have i2: "js_includes (transition_error_text dbid targetState msg) targetState"
    unfolding transition_error_text_def
    using js_includes_mid[of "''State transition error: The transition from current state to ''
             @ [CHR 0x27]" targetState
             "[CHR 0x27] @ '' may not be valid for work item '' @ dbid @ ''. Error: '' @ msg"]
    by simp
  have ne: "text_result (transition_error_text dbid targetState msg)
           \<noteq> text_result (''Error changing work item state: '' @ msg')"
    by (simp add: text_result_def transition_error_text_def)
  show ?thesis using movement commit i1 i2 ne by blast
qed

theorem invalid_transition_message_witness:
  "fst (change_work_item_state (plan_env reject_commit_server) ''42'' ''app'' ''Resolve''
          \<lparr>globalCookies = Some ''JSESSIONID=abc'', trace = []\<rparr>)
     = Inr (text_result (transition_error_text ''42'' ''Resolve''
              (''Commit request failed with status 422: ''
               @ JSON_stringify (JObj [(''message'', JStr ''Action not allowed'')]))))
   \<and> js_includes (transition_error_text ''42'' ''Resolve'' []) ''42''
   \<and> js_includes (transition_error_text ''42'' ''Resolve'' []) ''Resolve''"
proof -
  let ?env = "plan_env reject_commit_server"
  let ?w0 = "\<lparr>globalCookies = Some ''JSESSIONID=abc'', trace = []\<rparr>"
  let ?r1 = "api_request ?env (Some ''JSESSIONID=abc'') ''GET''
               (db_url ?env ''app'' @ ''/records/WorkItem/'' @ ''42'' @ ''?useDbid=true'') None None"
  let ?r2 = "api_request ?env (Some ''JSESSIONID=abc'') ''PATCH''
               (db_url ?env ''app'' @ ''/records/WorkItem/'' @ ''42'' @ ''?actionName=''
                  @ ''Resolve'' @ ''&operation=Edit&useDbid=true'') None (Some ''{}'')"
  let ?r3 = "api_request ?env (Some ''JSESSIONID=abc'') ''PATCH''
               (db_url ?env ''app'' @ ''/records/WorkItem/'' @ ''42''
                  @ ''?operation=Commit&useDbid=true'')
               None (Some (JSON_stringify (JObj [(''dbId'', JStr ''42''), (''fields'', JArr [])])))"
  have b: "JSON_stringify (JObj [(''dbId'', JStr ''42''), (''fields'', JArr [])]) \<noteq> ''{}''"
    by (simp add: JSON_stringify_def)
  have "(ok (json_response 200 (JObj [(''dbId'', JStr ''42'')]))
          \<and> body_json (json_response 200 (JObj [(''dbId'', JStr ''42'')]))
              = Inr (JObj [(''dbId'', JStr ''42'')])
          \<and> js_get (JObj [(''dbId'', JStr ''42'')]) ''dbId'' = Inr (JStr ''42'')
          \<and> exchange ?env (\<lparr>globalCookies = Some ''JSESSIONID=abc'', trace = [Fetch ?r1, Fetch ?r2]\<rparr>
                \<lparr>trace := trace \<lparr>globalCookies = Some ''JSESSIONID=abc'', trace = [Fetch ?r1, Fetch ?r2]\<rparr> @ [Delay 1000]\<rparr>)
                ?r3 (json_response 422 (JObj [(''message'', JStr ''Action not allowed'')]))
                \<lparr>globalCookies = Some ''JSESSIONID=abc'',
                 trace = [Fetch ?r1, Fetch ?r2, Delay 1000, Fetch ?r3]\<rparr>
          \<and> (status (json_response 422 (JObj [(''message'', JStr ''Action not allowed'')])) = 400
             \<or> status (json_response 422 (JObj [(''message'', JStr ''Action not allowed'')])) = 422)
          \<longrightarrow> change_work_item_state ?env ''42'' ''app'' ''Resolve'' ?w0
              = (Inr (text_result (transition_error_text ''42'' ''Resolve''
                   (''Commit request failed with status ''
                    @ show_nat (status (json_response 422 (JObj [(''message'', JStr ''Action not allowed'')])))
                    @ '': '' @ body_text (json_response 422 (JObj [(''message'', JStr ''Action not allowed'')]))))),
                 \<lparr>globalCookies = Some ''JSESSIONID=abc'',
                  trace = [Fetch ?r1, Fetch ?r2, Delay 1000, Fetch ?r3]\<rparr>))
        \<and> js_includes (transition_error_text ''42'' ''Resolve'' []) ''42''
        \<and> js_includes (transition_error_text ''42'' ''Resolve'' []) ''Resolve''"
    using invalid_transition_message
      [where env = ?env and w = ?w0 and ws = ?w0 and dbid = "''42''" and application = "''app''"
         and targetState = "''Resolve''"
         and getCurrentResponse = "json_response 200 (JObj [(''dbId'', JStr ''42'')])"
         and currentWorkItem = "JObj [(''dbId'', JStr ''42'')]"
         and wg = "\<lparr>globalCookies = Some ''JSESSIONID=abc'', trace = [Fetch ?r1]\<rparr>"
         and movementResponse = "json_response 200 (JObj [(''dbId'', JStr ''42'')])"
         and movementData = "JObj [(''dbId'', JStr ''42'')]" and dbId = "JStr ''42''"
         and wm = "\<lparr>globalCookies = Some ''JSESSIONID=abc'', trace = [Fetch ?r1, Fetch ?r2]\<rparr>"
         and commitResponse = "json_response 422 (JObj [(''message'', JStr ''Action not allowed'')])"
         and wc = "\<lparr>globalCookies = Some ''JSESSIONID=abc'',
                     trace = [Fetch ?r1, Fetch ?r2, Delay 1000, Fetch ?r3]\<rparr>"
         and msg = "[]"]
    by (simp add: cached_world exchange_def reject_commit_server_def plan_env_simps
          json_response_def ok_def api_request_def)
  then show ?thesis
    using b
    by (simp add: exchange_def reject_commit_server_def plan_env_simps json_response_def ok_def
          api_request_def)
qed

end
